theory Spec2Isabelle
  imports Complex_Main "HOL-Library.AList"
begin

section \<open>Common values\<close>

text \<open>
  JavaScript exceptions that the modelled code throws or lets through. \<open>Error msg\<close> is
  \<^verbatim>\<open>new Error(msg)\<close>; \<open>TypeError\<close> is what reading a property of \<^verbatim>\<open>undefined\<close>
  throws; \<open>UnknownPoolExtension e\<close> is \<^verbatim>\<open>new Error(`Unknown pool extension ${hexlify(e)}`)\<close>.
\<close>

datatype exn = Error string | TypeError | UnknownPoolExtension int

section \<open>IdleDaoEventPool: the event-sourced state store\<close>

record idle_token =
  idleSymbol :: string
  idleAddress :: string
  cdoAddress :: string

record pool_state =
  tokenPrice :: int

record log =
  log_address :: string
  blockNumber :: nat
  topics :: "string list"
  log_data :: string

text \<open>The decoded event (\<^verbatim>\<open>poolInterface.parseLog(log)\<close>): its name and its arguments.\<close>

record event =
  name :: string
  args :: "string list"

text \<open>
  The part of the object that \<^verbatim>\<open>generateState\<close> reads: the token description and the
  CDO contract. \<open>virtualPrice a b\<close> stands for
  \<^verbatim>\<open>cdoContract.methods['virtualPrice'](a).call({}, b)\<close>: the authoritative read at block
  \<open>b\<close>, which either rejects or yields the unsigned integer that web3 hands back as a
  decimal string and \<^verbatim>\<open>BigInt\<close> reads again.
\<close>

record idle_core =
  idleToken :: idle_token
  virtualPrice :: "string \<Rightarrow> nat \<Rightarrow> exn + nat"

type_synonym handler = "event \<Rightarrow> pool_state \<Rightarrow> log \<Rightarrow> exn + pool_state option"

text \<open>
  The whole subscriber: the decoder, the handler table (a plain object used as a
  dictionary from event name to handler) and the current snapshot kept by the
  base class.
\<close>

record idle_pool = idle_core +
  logDecoder :: "log \<Rightarrow> exn + event"
  handlers :: "(string \<times> handler) list"
  state :: "pool_state option"

definition generateState :: "'a idle_core_scheme \<Rightarrow> nat \<Rightarrow> exn + pool_state" where
  "generateState this blockNumber' =
     (case virtualPrice this (idleAddress (idleToken this)) blockNumber' of
        Inl e \<Rightarrow> Inl e
      | Inr tranchePrice \<Rightarrow> Inr \<lparr>tokenPrice = int tranchePrice\<rparr>)"

definition handleCoinTransfer ::
  "'a idle_core_scheme \<Rightarrow> event \<Rightarrow> pool_state \<Rightarrow> log \<Rightarrow> exn + pool_state option" where
  "handleCoinTransfer this ev st lg =
     (case generateState this (blockNumber lg) of
        Inl e \<Rightarrow> Inl e
      | Inr result \<Rightarrow> Inr (Some result))"









subsection \<open>A concrete subscriber\<close>






section \<open>Ekubo: data\<close>

datatype swap_side = SELL | BUY

record token =
  address :: string
  decimals :: nat

text \<open>\<^verbatim>\<open>PoolConfig(tickSpacing, fee, extension)\<close> and \<^verbatim>\<open>PoolKey(token0, token1, config)\<close>.\<close>

record pool_config =
  tickSpacing :: int
  fee :: int
  extension :: int

record pool_key =
  token0 :: int
  token1 :: int
  config :: pool_config

text \<open>What \<^verbatim>\<open>pool.quote\<close> returns.\<close>

record quote_result =
  consumedAmount :: int
  calculatedAmount :: int
  gasConsumed :: nat
  skipAhead :: nat

text \<open>
  A pool object: its key, the class it was constructed from, and the state and block
  number it was initialised with (\<^verbatim>\<open>pool.initialize(blockNumber, { state })\<close>).
\<close>

datatype pool_class = BasePool | OraclePool

record 's pool =
  key :: pool_key
  pool_class :: pool_class
  pool_state :: 's
  stateBlock :: nat

text \<open>\<^verbatim>\<open>this.pools\<close>, a \<^verbatim>\<open>Map\<close> from identifier to pool object, in insertion order.\<close>

type_synonym 's registry = "(string \<times> 's pool) list"

text \<open>
  What the class takes from its configuration, from helper modules that are not among
  the sources, and from the outside world:
  \<^item> \<open>dexKey\<close>, \<open>config_oracle\<close> (\<^verbatim>\<open>BigInt(this.config.oracle)\<close>) and \<open>core_address\<close>
    (\<^verbatim>\<open>BigInt(this.core.address)\<close>);
  \<^item> \<open>convertParaSwapToEkubo\<close>, \<open>NATIVE_TOKEN_ADDRESS\<close>, \<open>FULL_RANGE_TICK_SPACING\<close>,
    the getter \<open>string_id\<close> of a pool key, \<open>fromQuoter\<close> (\<^verbatim>\<open>PoolState.fromQuoter\<close>) and
    the method \<open>quote\<close> of a pool object, which returns a quote or throws;
  \<^item> \<open>getQuoteData batch n b\<close>, the call of the data fetcher contract for a batch at
    block \<open>b\<close>, which rejects or yields one datum per pool; and \<open>timerFirst t batch b\<close>,
    which says whether a timer of \<open>t\<close> milliseconds settles before that call does.
\<close>

record ('d, 's) env =
  dexKey :: string
  config_oracle :: int
  core_address :: int
  convertParaSwapToEkubo :: "string \<Rightarrow> int"
  NATIVE_TOKEN_ADDRESS :: int
  FULL_RANGE_TICK_SPACING :: int
  string_id :: "pool_key \<Rightarrow> string"
  fromQuoter :: "'d \<Rightarrow> 's"
  quote :: "'s pool \<Rightarrow> int \<Rightarrow> int \<Rightarrow> nat \<Rightarrow> exn + quote_result"
  getQuoteData :: "pool_key list \<Rightarrow> nat \<Rightarrow> nat \<Rightarrow> exn + 'd list"
  timerFirst :: "rat \<Rightarrow> pool_key list \<Rightarrow> nat \<Rightarrow> bool"

text \<open>What the logger receives.\<close>

datatype log_msg =
    Error_cant_quote_pair int int string
  | Debug_not_enough_liquidity
  | Error_quote_error exn
  | Warn_pool_not_found string
  | Error_updating_pool_map_failed exn
  | Error_fetching_pools_failed int int exn
  | Error_fetching_batch_failed "pool_key list" exn

record ekubo_data =
  poolKey :: pool_key
  isToken1 :: bool
  skipAheadMap :: "(int \<times> nat) list"

record pool_prices =
  prices :: "int list"
  unit :: int
  data :: ekubo_data
  poolIdentifier :: string
  exchange :: string
  gasCost :: "nat list"

section \<open>Ekubo: quoting\<close>

text \<open>
  Modelled from the spec: \<^verbatim>\<open>sortAndConvertTokens\<close> (imported from \<^verbatim>\<open>./utils\<close>) is not
  among the sources. The spec orders a pair canonically by numeric address value, lower
  first.
\<close>

definition sortAndConvertTokens :: "('d, 's) env \<Rightarrow> token \<Rightarrow> token \<Rightarrow> int \<times> int" where
  "sortAndConvertTokens env tokenA tokenB =
     (let a = convertParaSwapToEkubo env (address tokenA);
          b = convertParaSwapToEkubo env (address tokenB)
      in if a \<le> b then (a, b) else (b, a))"

text \<open>
  Modelled from the spec: \<^verbatim>\<open>getBigIntPow\<close> (imported from \<^verbatim>\<open>../../utils\<close>) is not among
  the sources. The spec calls the unit amount one whole token of the amount token, which
  is ten to the power of the token's decimals in base units.
\<close>

definition getBigIntPow :: "nat \<Rightarrow> int" where
  "getBigIntPow d = 10 ^ d"

definition getInitializedPools ::
  "('d, 's) env \<Rightarrow> 's registry \<Rightarrow> token \<Rightarrow> token \<Rightarrow> string list option
     \<Rightarrow> log_msg list \<times> 's pool list" where
  "getInitializedPools env pools tokenA tokenB limitPools =
     (case limitPools of
        None \<Rightarrow>
          (case sortAndConvertTokens env tokenA tokenB of
             (t0, t1) \<Rightarrow>
               ([], filter (\<lambda>pool. token0 (key pool) = t0 \<and> token1 (key pool) = t1)
                      (map snd pools)))
      | Some ids \<Rightarrow>
          (concat (map (\<lambda>poolId. case map_of pools poolId of
                                   None \<Rightarrow> [Warn_pool_not_found poolId]
                                 | Some pool \<Rightarrow> []) ids),
           concat (map (\<lambda>poolId. case map_of pools poolId of
                                   None \<Rightarrow> []
                                 | Some pool \<Rightarrow> [pool]) ids)))"

text \<open>
  The values that \<^verbatim>\<open>getPricesVolume\<close> computes before its loop: whether the request
  is exact-out, the amount token's address, the unit amount and the sorted pair.
\<close>

record quote_ctx =
  isExactOut :: bool
  amountTokenAddress :: int
  unitAmount :: int
  ctx_token0 :: int
  ctx_token1 :: int

definition amountToken :: "swap_side \<Rightarrow> token \<Rightarrow> token \<Rightarrow> token" where
  "amountToken side srcToken destToken = (if side = BUY then destToken else srcToken)"

definition quoteContext :: "('d, 's) env \<Rightarrow> token \<Rightarrow> token \<Rightarrow> swap_side \<Rightarrow> quote_ctx" where
  "quoteContext env srcToken destToken side =
     (case sortAndConvertTokens env srcToken destToken of
        (t0, t1) \<Rightarrow>
          \<lparr>isExactOut = (side = BUY),
           amountTokenAddress =
             convertParaSwapToEkubo env (address (amountToken side srcToken destToken)),
           unitAmount = getBigIntPow (decimals (amountToken side srcToken destToken)),
           ctx_token0 = t0,
           ctx_token1 = t1\<rparr>)"

definition inputAmount :: "quote_ctx \<Rightarrow> int \<Rightarrow> int" where
  "inputAmount ctx amount = (if isExactOut ctx then - amount else amount)"

text \<open>
  The inner loop over \<^verbatim>\<open>[unitAmount, ...amounts]\<close>, with the quotes pushed and the
  skip-ahead map filled so far. It ends by running through, by leaving for the next
  pool (\<^verbatim>\<open>continue poolLoop\<close>), or by an exception of \<^verbatim>\<open>pool.quote\<close>.
\<close>

datatype quotes_outcome =
    Completed "quote_result list" "(int \<times> nat) list"
  | NotEnoughLiquidity
  | Thrown exn

fun quoteAmounts ::
  "('d, 's) env \<Rightarrow> quote_ctx \<Rightarrow> nat \<Rightarrow> 's pool \<Rightarrow> int list
     \<Rightarrow> quote_result list \<Rightarrow> (int \<times> nat) list \<Rightarrow> quotes_outcome" where
  "quoteAmounts env ctx blk pool [] quotes sk = Completed quotes sk"
| "quoteAmounts env ctx blk pool (amount # rest) quotes sk =
     (case quote env pool (inputAmount ctx amount) (amountTokenAddress ctx) blk of
        Inl err \<Rightarrow> Thrown err
      | Inr q \<Rightarrow>
          if isExactOut ctx \<and> consumedAmount q \<noteq> inputAmount ctx amount
          then NotEnoughLiquidity
          else quoteAmounts env ctx blk pool rest (quotes @ [q])
                 (AList.update amount (skipAhead q) sk))"

text \<open>
  One turn of \<^verbatim>\<open>poolLoop\<close>: what is logged and the price point pushed, if any.
  Destructuring an empty \<^verbatim>\<open>quotes\<close> would leave \<^verbatim>\<open>unitQuote\<close> undefined and the
  read of \<^verbatim>\<open>unitQuote.calculatedAmount\<close> would throw inside the \<^verbatim>\<open>try\<close>.
\<close>

definition quotePool ::
  "('d, 's) env \<Rightarrow> quote_ctx \<Rightarrow> int list \<Rightarrow> nat \<Rightarrow> 's pool
     \<Rightarrow> log_msg list \<times> pool_prices option" where
  "quotePool env ctx amounts blk pool =
     (let poolId = string_id env (key pool) in
      if token0 (key pool) \<noteq> ctx_token0 ctx \<or> token1 (key pool) \<noteq> ctx_token1 ctx
      then ([Error_cant_quote_pair (ctx_token0 ctx) (ctx_token1 ctx) poolId], None)
      else
        (case quoteAmounts env ctx blk pool (unitAmount ctx # amounts) [] [] of
           NotEnoughLiquidity \<Rightarrow> ([Debug_not_enough_liquidity], None)
         | Thrown err \<Rightarrow> ([Error_quote_error err], None)
         | Completed quotes sk \<Rightarrow>
             (case quotes of
                [] \<Rightarrow> ([Error_quote_error TypeError], None)
              | unitQuote # otherQuotes \<Rightarrow>
                  ([], Some \<lparr>prices = map calculatedAmount otherQuotes,
                             unit = calculatedAmount unitQuote,
                             data = \<lparr>poolKey = key pool,
                                     isToken1 = (amountTokenAddress ctx = ctx_token1 ctx),
                                     skipAheadMap = sk\<rparr>,
                             poolIdentifier = poolId,
                             exchange = dexKey env,
                             gasCost = map gasConsumed otherQuotes\<rparr>))))"

fun poolLoop ::
  "('d, 's) env \<Rightarrow> quote_ctx \<Rightarrow> int list \<Rightarrow> nat \<Rightarrow> 's pool list
     \<Rightarrow> log_msg list \<times> pool_prices list" where
  "poolLoop env ctx amounts blk [] = ([], [])"
| "poolLoop env ctx amounts blk (pool # rest) =
     (case quotePool env ctx amounts blk pool of
        (lg, r) \<Rightarrow>
          (case poolLoop env ctx amounts blk rest of
             (lgs, exchangePrices) \<Rightarrow>
               (lg @ lgs,
                (case r of None \<Rightarrow> exchangePrices | Some pp \<Rightarrow> pp # exchangePrices))))"

definition getPricesVolume ::
  "('d, 's) env \<Rightarrow> 's registry \<Rightarrow> token \<Rightarrow> token \<Rightarrow> int list \<Rightarrow> swap_side \<Rightarrow> nat
     \<Rightarrow> string list option \<Rightarrow> log_msg list \<times> pool_prices list" where
  "getPricesVolume env pools srcToken destToken amounts side blk limitPools =
     (case getInitializedPools env pools srcToken destToken limitPools of
        (warnings, candidates) \<Rightarrow>
          (case poolLoop env (quoteContext env srcToken destToken side) amounts blk candidates of
             (lgs, exchangePrices) \<Rightarrow> (warnings @ lgs, exchangePrices)))"

section \<open>Ekubo: discovery and batch initialisation\<close>

definition MIN_TICK_SPACINGS_PER_POOL :: nat where
  "MIN_TICK_SPACINGS_PER_POOL = 10"

definition MAX_POOL_BATCH_COUNT :: nat where
  "MAX_POOL_BATCH_COUNT = 5"

record vanilla_pool_parameters =
  param_fee :: int
  param_tickSpacing :: int

definition FALLBACK_POOL_PARAMETERS :: "vanilla_pool_parameters list" where
  "FALLBACK_POOL_PARAMETERS =
     [\<lparr>param_fee = 1844674407370955, param_tickSpacing = 200\<rparr>,
      \<lparr>param_fee = 9223372036854775, param_tickSpacing = 1000\<rparr>,
      \<lparr>param_fee = 55340232221128654, param_tickSpacing = 5982\<rparr>,
      \<lparr>param_fee = 184467440737095516, param_tickSpacing = 19802\<rparr>,
      \<lparr>param_fee = 922337203685477580, param_tickSpacing = 95310\<rparr>]"

definition PoolConfig :: "int \<Rightarrow> int \<Rightarrow> int \<Rightarrow> pool_config" where
  "PoolConfig ts f ext = \<lparr>tickSpacing = ts, fee = f, extension = ext\<rparr>"

definition PoolKey :: "int \<Rightarrow> int \<Rightarrow> pool_config \<Rightarrow> pool_key" where
  "PoolKey t0 t1 c = \<lparr>token0 = t0, token1 = t1, config = c\<rparr>"

text \<open>
  An entry of the index's answer to \<^verbatim>\<open>/pools\<close>, with the strings that the code passes
  through \<^verbatim>\<open>BigInt\<close> given by their numeric value.
\<close>

record pool_info =
  info_core_address :: int
  info_token0 :: int
  info_token1 :: int
  info_fee :: int
  info_tick_spacing :: int
  info_extension :: int

definition supportedExtensions :: "('d, 's) env \<Rightarrow> int list" where
  "supportedExtensions env = [0, config_oracle env]"

text \<open>
  \<^verbatim>\<open>fetchAllPoolKeys\<close>, given the outcome of the request and of the validation of its
  answer: \<open>Inl\<close> when the request rejects or the answer does not validate.
\<close>

definition fetchAllPoolKeys ::
  "('d, 's) env \<Rightarrow> exn + pool_info list \<Rightarrow> exn + pool_key list" where
  "fetchAllPoolKeys env res =
     (case res of
        Inl err \<Rightarrow> Inl err
      | Inr val \<Rightarrow>
          Inr (map (\<lambda>info. PoolKey (info_token0 info) (info_token1 info)
                             (PoolConfig (info_tick_spacing info) (info_fee info)
                                (info_extension info)))
                 (filter (\<lambda>r. info_extension r \<in> set (supportedExtensions env) \<and>
                               info_core_address r = core_address env) val)))"

text \<open>
  How a promise returned by \<^verbatim>\<open>initializePools\<close> settles: fulfilled with the
  identifiers of the batch, or rejected with \<^verbatim>\<open>{ batch, err }\<close>.
\<close>

datatype batch_result = Fulfilled "string list" | Rejected "pool_key list" exn

text \<open>
  The synchronous part of each callback of \<^verbatim>\<open>fetchedData.map\<close>, for the data from
  index \<open>i\<close> on: the pool is put into the map before the callback's only \<^verbatim>\<open>await\<close>,
  and a callback that throws leaves a rejected promise while the following callbacks
  still run. The key is read from the whole list at \<^verbatim>\<open>batchStart + i\<close>; past the
  end it is \<^verbatim>\<open>undefined\<close> and reading its \<^verbatim>\<open>string_id\<close> throws.
\<close>

fun initializeItems ::
  "('d, 's) env \<Rightarrow> pool_key list \<Rightarrow> nat \<Rightarrow> nat \<Rightarrow> nat \<Rightarrow> 'd list \<Rightarrow> 's registry
     \<Rightarrow> 's registry \<times> (exn + string) list" where
  "initializeItems env poolKeys blk batchStart i [] pools = (pools, [])"
| "initializeItems env poolKeys blk batchStart i (d # ds) pools =
     (let initialState = fromQuoter env d in
      if batchStart + i < length poolKeys
      then
        (let poolKey' = poolKeys ! (batchStart + i);
             poolId = string_id env poolKey';
             ext = extension (config poolKey')
         in if ext = 0 \<or> ext = config_oracle env
            then
              (let pool = \<lparr>key = poolKey',
                           pool_class = (if ext = 0 then BasePool else OraclePool),
                           pool_state = initialState, stateBlock = blk\<rparr>
               in case initializeItems env poolKeys blk batchStart (Suc i) ds
                         (AList.update poolId pool pools) of
                    (pools', rs) \<Rightarrow> (pools', Inr poolId # rs))
            else
              (case initializeItems env poolKeys blk batchStart (Suc i) ds pools of
                 (pools', rs) \<Rightarrow> (pools', Inl (UnknownPoolExtension ext) # rs)))
      else
        (case initializeItems env poolKeys blk batchStart (Suc i) ds pools of
           (pools', rs) \<Rightarrow> (pools', Inl TypeError # rs)))"

text \<open>\<^verbatim>\<open>Promise.all\<close>: the values in order, or the first rejection.\<close>

fun promise_all :: "(exn + 'a) list \<Rightarrow> exn + 'a list" where
  "promise_all [] = Inr []"
| "promise_all (Inl e # rs) = Inl e"
| "promise_all (Inr v # rs) = (case promise_all rs of Inl e \<Rightarrow> Inl e | Inr vs \<Rightarrow> Inr (v # vs))"

text \<open>
  Whether the deadline of a batch settles first: there is a timer in the race only when
  \<^verbatim>\<open>maxTime\<close> is truthy, that is, given and not zero.
\<close>

definition deadlineFirst ::
  "('d, 's) env \<Rightarrow> rat option \<Rightarrow> pool_key list \<Rightarrow> nat \<Rightarrow> bool" where
  "deadlineFirst env maxTime batch blk =
     (case maxTime of
        None \<Rightarrow> False
      | Some t \<Rightarrow> t \<noteq> 0 \<and> timerFirst env t batch blk)"

text \<open>
  The fetch of one batch, the \<^verbatim>\<open>async\<close> arrow function in the race: what it has
  captured when the loop creates it. \<^verbatim>\<open>Promise.race\<close> cancels nothing, so the fetch
  of a batch that lost against its timer is still under way when the promise of the
  batch has been rejected.
\<close>

record pending_fetch =
  fetch_poolKeys :: "pool_key list"
  fetch_blockNumber :: nat
  fetch_batchStart :: nat
  fetch_batch :: "pool_key list"

text \<open>
  The body of the arrow function from the moment \<^verbatim>\<open>getQuoteData\<close> answers, on the
  registry of that moment: the pools it stores and what its promise settles with.
\<close>

definition fetchBatch ::
  "('d, 's) env \<Rightarrow> pending_fetch \<Rightarrow> 's registry \<Rightarrow> 's registry \<times> (exn + string list)" where
  "fetchBatch env f pools =
     (case getQuoteData env (fetch_batch f) MIN_TICK_SPACINGS_PER_POOL (fetch_blockNumber f) of
        Inl err \<Rightarrow> (pools, Inl err)
      | Inr fetchedData \<Rightarrow>
          (case initializeItems env (fetch_poolKeys f) (fetch_blockNumber f) (fetch_batchStart f)
                  0 fetchedData pools of
             (pools', rs) \<Rightarrow> (pools', promise_all rs)))"

text \<open>
  A fetch that answers after its batch has timed out: nobody reads what its promise
  settles with, but its \<^verbatim>\<open>pools.set\<close> calls run all the same, on the registry as it
  is by then.
\<close>

definition landFetch :: "('d, 's) env \<Rightarrow> pending_fetch \<Rightarrow> 's registry \<Rightarrow> 's registry" where
  "landFetch env f later = fst (fetchBatch env f later)"

text \<open>
  One batch: the race of its timer with its fetch. The result is the registry when the
  promise of the batch settles, what the promise settles with, and the fetches left
  under way. A batch that loses against its timer has put nothing into the registry by
  then and leaves its fetch behind, to land later (\<open>landFetch\<close>); a batch whose fetch
  settles first leaves nothing behind.
\<close>

definition initializeBatch ::
  "('d, 's) env \<Rightarrow> pool_key list \<Rightarrow> nat \<Rightarrow> rat option \<Rightarrow> nat \<Rightarrow> pool_key list
     \<Rightarrow> 's registry \<Rightarrow> 's registry \<times> batch_result \<times> pending_fetch list" where
  "initializeBatch env poolKeys blk maxTime batchStart batch pools =
     (let f = \<lparr>fetch_poolKeys = poolKeys, fetch_blockNumber = blk,
                fetch_batchStart = batchStart, fetch_batch = batch\<rparr>
      in if deadlineFirst env maxTime batch blk
         then (pools, Rejected batch (Error ''Timeout''), [f])
         else
           (case fetchBatch env f pools of
              (pools', Inl err) \<Rightarrow> (pools', Rejected batch err, [])
            | (pools', Inr ids) \<Rightarrow> (pools', Fulfilled ids, [])))"

text \<open>
  The loop of \<^verbatim>\<open>initializePools\<close> from \<open>batchStart\<close> on, with the registry, the
  promises pushed and the fetches left under way so far. The source starts all fetches
  at once and each batch stores its pools when its own fetch returns; here the batches
  that settle before their timers store in the order of the loop, which only decides
  whose pool object stays under an identifier that occurs in two batches. The fetches
  of the batches that timed out are returned beside the promises: they store after the
  caller has gone on.
\<close>

function initializePools_from ::
  "('d, 's) env \<Rightarrow> pool_key list \<Rightarrow> nat \<Rightarrow> rat option \<Rightarrow> nat \<Rightarrow> 's registry
     \<Rightarrow> batch_result list \<Rightarrow> pending_fetch list
     \<Rightarrow> 's registry \<times> batch_result list \<times> pending_fetch list" where
  "initializePools_from env poolKeys blk maxTime batchStart pools promises pending =
     (if batchStart < length poolKeys
      then
        (let batch = take MAX_POOL_BATCH_COUNT (drop batchStart poolKeys)
         in case initializeBatch env poolKeys blk maxTime batchStart batch pools of
              (pools', r, fs) \<Rightarrow>
                initializePools_from env poolKeys blk maxTime
                  (batchStart + MAX_POOL_BATCH_COUNT) pools' (promises @ [r]) (pending @ fs))
      else (pools, promises, pending))"
  by pat_completeness auto
termination
  by (relation "measure (\<lambda>(env, poolKeys, blk, maxTime, batchStart, pools, promises, pending).
                           length poolKeys - batchStart)")
     (auto simp: MAX_POOL_BATCH_COUNT_def)

definition initializePools ::
  "('d, 's) env \<Rightarrow> 's registry \<Rightarrow> pool_key list \<Rightarrow> nat \<Rightarrow> rat option
     \<Rightarrow> 's registry \<times> batch_result list \<times> pending_fetch list" where
  "initializePools env pools poolKeys blk maxTime =
     initializePools_from env poolKeys blk maxTime 0 pools [] []"

definition has :: "'s registry \<Rightarrow> string \<Rightarrow> bool" where
  "has pools poolId = (map_of pools poolId \<noteq> None)"

definition batchFailures :: "batch_result list \<Rightarrow> log_msg list" where
  "batchFailures results =
     concat (map (\<lambda>res. case res of
                           Rejected batch err \<Rightarrow> [Error_fetching_batch_failed batch err]
                         | Fulfilled ids \<Rightarrow> []) results)"

text \<open>
  The two discovery passes. Each returns the registry as it is when the pass returns
  and, last, the fetches of its timed-out batches, which are still under way then.
\<close>

definition updatePoolMap ::
  "('d, 's) env \<Rightarrow> 's registry \<Rightarrow> exn + pool_info list \<Rightarrow> nat
     \<Rightarrow> 's registry \<times> log_msg list \<times> pending_fetch list" where
  "updatePoolMap env pools res blk =
     (case fetchAllPoolKeys env res of
        Inl err \<Rightarrow> (pools, [Error_updating_pool_map_failed err], [])
      | Inr poolKeys \<Rightarrow>
          (let uninitializedPoolKeys =
                 filter (\<lambda>poolKey'. \<not> has pools (string_id env poolKey')) poolKeys
           in case initializePools env pools uninitializedPoolKeys blk None of
                (pools', promises, pending) \<Rightarrow> (pools', batchFailures promises, pending)))"

text \<open>
  The \<^verbatim>\<open>try\<close>/\<^verbatim>\<open>catch\<close> of \<^verbatim>\<open>fetchPoolsByPair\<close>: the keys of the pair from the index,
  or the fallback keys when \<^verbatim>\<open>fetchAllPoolKeys\<close> throws.
\<close>

definition pairPoolKeys ::
  "('d, 's) env \<Rightarrow> exn + pool_info list \<Rightarrow> int \<Rightarrow> int \<Rightarrow> pool_key list \<times> log_msg list" where
  "pairPoolKeys env res t0 t1 =
     (case fetchAllPoolKeys env res of
        Inr allKeys \<Rightarrow>
          (filter (\<lambda>poolKey'. token0 poolKey' = t0 \<and> token1 poolKey' = t1) allKeys, [])
      | Inl err \<Rightarrow>
          (map (\<lambda>params. PoolKey t0 t1
                           (PoolConfig (param_tickSpacing params) (param_fee params) 0))
             FALLBACK_POOL_PARAMETERS
           @ (if NATIVE_TOKEN_ADDRESS env \<in> set [t0, t1]
              then [PoolKey t0 t1
                      (PoolConfig (FULL_RANGE_TICK_SPACING env) 0 (config_oracle env))]
              else []),
           [Error_fetching_pools_failed t0 t1 err]))"

definition fetchPoolsByPair ::
  "('d, 's) env \<Rightarrow> 's registry \<Rightarrow> exn + pool_info list \<Rightarrow> token \<Rightarrow> token \<Rightarrow> nat \<Rightarrow> rat
     \<Rightarrow> 's registry \<times> log_msg list \<times> string list \<times> pending_fetch list" where
  "fetchPoolsByPair env pools res tokenA tokenB blk maxTime =
     (case sortAndConvertTokens env tokenA tokenB of
        (t0, t1) \<Rightarrow>
          (case pairPoolKeys env res t0 t1 of
             (poolKeys, lg) \<Rightarrow>
               (let uninitializedPoolKeys =
                      filter (\<lambda>poolKey'. \<not> has pools (string_id env poolKey')) poolKeys;
                    initializedPoolKeys =
                      filter (\<lambda>poolKey'. has pools (string_id env poolKey')) poolKeys
                in case initializePools env pools uninitializedPoolKeys blk
                          (Some ((maxTime - 50) / 2)) of
                     (pools', promises, pending) \<Rightarrow>
                       (let oldPoolIds = map (string_id env) initializedPoolKeys;
                            newPoolIds =
                              concat (map (\<lambda>res. case res of
                                                    Rejected batch err \<Rightarrow> []
                                                  | Fulfilled ids \<Rightarrow> ids) promises)
                        in (pools', lg @ batchFailures promises, oldPoolIds @ newPoolIds,
                            pending)))))"

declare initializePools_from.simps [simp del]

subsection \<open>A concrete exchange\<close>

text \<open>
  A small instance to run the definitions on. A token's numeric address is the length
  of its address string; a key's identifier spells its second token by as many \<open>t\<close>
  and its fee by as many \<open>f\<close>; a pool's state is its depth, a negative depth makes
  \<open>quote\<close> throw, an exact-out quote consumes at most the depth and pays two per unit,
  an exact-in quote returns at most the depth. The fetcher rejects at block 0 and
  otherwise returns ten times the fee of each key; a timer under 100 ms beats the fetch
  of a full batch only.
\<close>

definition demo_string_id :: "pool_key \<Rightarrow> string" where
  "demo_string_id k =
     replicate (nat (token1 k)) CHR ''t'' @ replicate (nat (fee (config k))) CHR ''f'' @
     (if extension (config k) = 0 then [] else ''o'')"

definition demo_quote :: "int pool \<Rightarrow> int \<Rightarrow> int \<Rightarrow> nat \<Rightarrow> exn + quote_result" where
  "demo_quote pool amount tok blk =
     (if pool_state pool < 0 then Inl (Error ''tick out of range'')
      else if amount < 0
      then Inr \<lparr>consumedAmount = - min (- amount) (pool_state pool),
                calculatedAmount = 2 * min (- amount) (pool_state pool),
                gasConsumed = 7, skipAhead = 0\<rparr>
      else Inr \<lparr>consumedAmount = amount,
                calculatedAmount = min amount (pool_state pool),
                gasConsumed = 9, skipAhead = 1\<rparr>)"

definition demo_getQuoteData :: "pool_key list \<Rightarrow> nat \<Rightarrow> nat \<Rightarrow> exn + int list" where
  "demo_getQuoteData batch n b =
     (if b = 0 then Inl (Error ''call reverted'')
      else Inr (map (\<lambda>k. fee (config k) * 10) batch))"

definition demo_env :: "(int, int) env" where
  "demo_env =
     \<lparr>dexKey = ''Ekubo'', config_oracle = 99, core_address = 1,
      convertParaSwapToEkubo = (\<lambda>a. int (length a)),
      NATIVE_TOKEN_ADDRESS = 0, FULL_RANGE_TICK_SPACING = 0,
      string_id = demo_string_id, fromQuoter = (\<lambda>d. d), quote = demo_quote,
      getQuoteData = demo_getQuoteData,
      timerFirst = (\<lambda>t batch b. t < 100 \<and> length batch = 5)\<rparr>"

definition demo_key :: "int \<Rightarrow> int \<Rightarrow> int \<Rightarrow> pool_key" where
  "demo_key t0 t1 f = \<lparr>token0 = t0, token1 = t1, config = \<lparr>tickSpacing = 200, fee = f, extension = 0\<rparr>\<rparr>"

definition demo_pool :: "int \<Rightarrow> int \<Rightarrow> int \<Rightarrow> int \<Rightarrow> int pool" where
  "demo_pool t0 t1 f l = \<lparr>key = demo_key t0 t1 f, pool_class = BasePool, pool_state = l, stateBlock = 1\<rparr>"

definition demo_pools :: "int registry" where
  "demo_pools =
     [(''ttf'', demo_pool 1 2 1 100), (''ttff'', demo_pool 1 2 2 5),
      (''ttfff'', demo_pool 1 2 3 (- 1)), (''tttf'', demo_pool 1 3 1 100)]"

definition demo_src :: token where "demo_src = \<lparr>address = ''a'', decimals = 0\<rparr>"
definition demo_dest :: token where "demo_dest = \<lparr>address = ''bb'', decimals = 1\<rparr>"

definition demo_keys :: "pool_key list" where
  "demo_keys = map (demo_key 1 2) [1, 2, 3, 4, 5, 6, 7]"

definition demo_info :: "int \<Rightarrow> pool_info" where
  "demo_info f = \<lparr>info_core_address = 1, info_token0 = 1, info_token1 = 2, info_fee = f,
                  info_tick_spacing = 200, info_extension = 0\<rparr>"

section \<open>Properties of the state store\<close>





text \<open>
  C9. \<open>generateState\<close> is idempotent. The read is a function of the queried address
  and the block, and \<open>generateState\<close> consults nothing else: whatever snapshot the
  subscriber holds, the call at a block gives the same answer, so a second call at the
  same block, made after the first result has been stored as the current snapshot,
  returns the identical snapshot (or fails with the identical exception).
\<close>

theorem generateState_idempotent:
  "generateState (this\<lparr>state := s\<rparr>) b = generateState this b \<and>
   (case generateState this b of
      Inl e \<Rightarrow> generateState this b = Inl e
    | Inr snap \<Rightarrow> generateState (this\<lparr>state := Some snap\<rparr>) b = Inr snap)"
  by (simp add: generateState_def split: sum.splits)

text \<open>
  C10. The Transfer handler returns exactly what regeneration at the log's block
  returns, whatever the decoded event and the previous snapshot are.
\<close>

theorem handleCoinTransfer_is_generateState:
  "handleCoinTransfer this ev st lg = map_sum id Some (generateState this (blockNumber lg)) \<and>
   handleCoinTransfer this ev st lg = handleCoinTransfer this ev' st' lg"
  by (simp add: handleCoinTransfer_def split: sum.splits)

section \<open>Rules for running the concrete exchange\<close>

lemma replicate_count_down:
  "replicate (numeral n) c = [c] @ replicate (numeral n - 1) c"
  unfolding numeral_eq_Suc by simp

lemmas demo_defs = replicate_count_down
  demo_env_def demo_string_id_def demo_quote_def demo_getQuoteData_def demo_key_def
  demo_pool_def demo_pools_def demo_src_def demo_dest_def demo_keys_def demo_info_def

lemmas quoting_defs =
  getPricesVolume_def getInitializedPools_def sortAndConvertTokens_def quoteContext_def
  amountToken_def getBigIntPow_def quotePool_def inputAmount_def Let_def

lemmas discovery_defs =
  initializePools_def initializePools_from.simps initializeBatch_def fetchBatch_def
  landFetch_def deadlineFirst_def
  MAX_POOL_BATCH_COUNT_def MIN_TICK_SPACINGS_PER_POOL_def Let_def

section \<open>Properties of quoting\<close>

lemma quoteAmounts_Completed:
  "quoteAmounts env ctx blk pool amts qs sk = Completed qs' sk' \<Longrightarrow>
     \<exists>new. qs' = qs @ new \<and>
       list_all2 (\<lambda>a q. quote env pool (inputAmount ctx a) (amountTokenAddress ctx) blk = Inr q \<and>
                         (isExactOut ctx \<longrightarrow> consumedAmount q = inputAmount ctx a)) amts new"
proof (induction amts arbitrary: qs sk)
  case Nil
  then show ?case by simp
next
  case (Cons a amts)
  then show ?case
    by (fastforce split: sum.splits if_splits)
qed

lemma quoteAmounts_Thrown:
  "\<forall>b\<in>set ys. \<exists>q. quote env pool (inputAmount ctx b) (amountTokenAddress ctx) blk = Inr q \<and>
                   (isExactOut ctx \<longrightarrow> consumedAmount q = inputAmount ctx b) \<Longrightarrow>
   quote env pool (inputAmount ctx a) (amountTokenAddress ctx) blk = Inl e \<Longrightarrow>
   quoteAmounts env ctx blk pool (ys @ a # zs) qs sk = Thrown e"
  by (induction ys arbitrary: qs sk) auto

lemma quotePool_Some:
  assumes "quotePool env ctx amounts blk pool = (lg, Some pp)"
  shows "lg = [] \<and> token0 (key pool) = ctx_token0 ctx \<and> token1 (key pool) = ctx_token1 ctx \<and>
         poolKey (data pp) = key pool \<and> poolIdentifier pp = string_id env (key pool) \<and>
         (\<exists>uq qs.
            list_all2 (\<lambda>a q. quote env pool (inputAmount ctx a) (amountTokenAddress ctx) blk = Inr q \<and>
                              (isExactOut ctx \<longrightarrow> consumedAmount q = inputAmount ctx a))
                      (unitAmount ctx # amounts) (uq # qs) \<and>
            unit pp = calculatedAmount uq \<and>
            prices pp = map calculatedAmount qs \<and>
            gasCost pp = map gasConsumed qs)"
proof -
  from assms have pair: "token0 (key pool) = ctx_token0 ctx \<and> token1 (key pool) = ctx_token1 ctx"
    by (auto simp: quotePool_def Let_def split: if_splits)
  from assms pair obtain quotes sk where
    c: "quoteAmounts env ctx blk pool (unitAmount ctx # amounts) [] [] = Completed quotes sk"
    by (auto simp: quotePool_def Let_def split: quotes_outcome.splits)
  from assms pair c obtain uq qs where q: "quotes = uq # qs"
    by (auto simp: quotePool_def Let_def split: list.splits)
  from quoteAmounts_Completed[OF c] q
  have l: "list_all2 (\<lambda>a q. quote env pool (inputAmount ctx a) (amountTokenAddress ctx) blk = Inr q \<and>
                              (isExactOut ctx \<longrightarrow> consumedAmount q = inputAmount ctx a))
                      (unitAmount ctx # amounts) (uq # qs)"
    by simp
  from assms pair c q have "lg = [] \<and> poolKey (data pp) = key pool \<and>
      poolIdentifier pp = string_id env (key pool) \<and> unit pp = calculatedAmount uq \<and>
      prices pp = map calculatedAmount qs \<and> gasCost pp = map gasConsumed qs"
    by (auto simp: quotePool_def Let_def)
  with pair l show ?thesis by blast
qed

lemma poolLoop_prices:
  "snd (poolLoop env ctx amounts blk ps) = List.map_filter (\<lambda>p. snd (quotePool env ctx amounts blk p)) ps"
  by (induction ps) (auto split: prod.splits option.splits)

lemma poolLoop_logs:
  "fst (poolLoop env ctx amounts blk ps) = concat (map (\<lambda>p. fst (quotePool env ctx amounts blk p)) ps)"
  by (induction ps) (auto split: prod.splits option.splits)

lemma getPricesVolume_prices:
  "getInitializedPools env pools src dest limitPools = (w, cands) \<Longrightarrow>
   snd (getPricesVolume env pools src dest amounts side blk limitPools) =
     List.map_filter (\<lambda>p. snd (quotePool env (quoteContext env src dest side) amounts blk p)) cands"
  using poolLoop_prices[of env "quoteContext env src dest side" amounts blk cands]
  by (auto simp: getPricesVolume_def split: prod.splits)

lemma getPricesVolume_logs:
  "getInitializedPools env pools src dest limitPools = (w, cands) \<Longrightarrow>
   fst (getPricesVolume env pools src dest amounts side blk limitPools) =
     w @ concat (map (\<lambda>p. fst (quotePool env (quoteContext env src dest side) amounts blk p)) cands)"
  using poolLoop_logs[of env "quoteContext env src dest side" amounts blk cands]
  by (auto simp: getPricesVolume_def split: prod.splits)

lemma map_filter_mem:
  "y \<in> set (List.map_filter f xs) \<longleftrightarrow> (\<exists>x\<in>set xs. f x = Some y)"
  by (induction xs) (auto split: option.splits)

lemma quoteContext_fields:
  "isExactOut (quoteContext env src dest side) = (side = BUY)"
  "amountTokenAddress (quoteContext env src dest side) = convertParaSwapToEkubo env (address (amountToken side src dest))"
  "unitAmount (quoteContext env src dest side) = getBigIntPow (decimals (amountToken side src dest))"
  "(ctx_token0 (quoteContext env src dest side), ctx_token1 (quoteContext env src dest side)) = sortAndConvertTokens env src dest"
  by (auto simp: quoteContext_def split: prod.splits)

lemma map_filter_all_None:
  "\<forall>x\<in>set xs. f x = None \<Longrightarrow> List.map_filter f xs = []"
  by (induction xs) auto

lemma list_all2_quoted:
  "list_all2 P xs ys \<Longrightarrow> a \<in> set xs \<Longrightarrow> \<exists>q\<in>set ys. P a q"
  by (induction rule: list_all2_induct) auto

lemma quoteAmounts_complete:
  "list_all2 (\<lambda>a q. quote env pool (inputAmount ctx a) (amountTokenAddress ctx) blk = Inr q \<and>
                     (isExactOut ctx \<longrightarrow> consumedAmount q = inputAmount ctx a)) amts new \<Longrightarrow>
   quoteAmounts env ctx blk pool amts qs sk =
     Completed (qs @ new) (foldl (\<lambda>m (a, q). AList.update a (skipAhead q) m) sk (zip amts new))"
proof (induction arbitrary: qs sk rule: list_all2_induct)
  case Nil
  then show ?case by simp
next
  case (Cons a q amts new)
  then show ?case by simp
qed

lemma quotePool_complete:
  assumes "token0 (key pool) = ctx_token0 ctx" and "token1 (key pool) = ctx_token1 ctx"
    and "list_all2 (\<lambda>a q. quote env pool (inputAmount ctx a) (amountTokenAddress ctx) blk = Inr q \<and>
                     (isExactOut ctx \<longrightarrow> consumedAmount q = inputAmount ctx a))
           (unitAmount ctx # amounts) (uq # qs)"
  shows "quotePool env ctx amounts blk pool =
           ([], Some \<lparr>prices = map calculatedAmount qs,
                      unit = calculatedAmount uq,
                      data = \<lparr>poolKey = key pool,
                              isToken1 = (amountTokenAddress ctx = ctx_token1 ctx),
                              skipAheadMap =
                                foldl (\<lambda>m (a, q). AList.update a (skipAhead q) m) []
                                  (zip (unitAmount ctx # amounts) (uq # qs))\<rparr>,
                      poolIdentifier = string_id env (key pool),
                      exchange = dexKey env,
                      gasCost = map gasConsumed qs\<rparr>)"
proof -
  from quoteAmounts_complete[OF assms(3), of "[]" "[]"]
  have "quoteAmounts env ctx blk pool (unitAmount ctx # amounts) [] [] =
          Completed (uq # qs)
            (foldl (\<lambda>m (a, q). AList.update a (skipAhead q) m) []
               (zip (unitAmount ctx # amounts) (uq # qs)))"
    by simp
  with assms(1,2) show ?thesis
    by (simp add: quotePool_def Let_def del: quoteAmounts.simps foldl.simps zip_Cons_Cons)
qed

lemma map_filter_Some_mem:
  "x \<in> set xs \<Longrightarrow> f x = Some y \<Longrightarrow> y \<in> set (List.map_filter f xs)"
  by (auto simp: map_filter_mem)

lemma getPricesVolume_complete:
  assumes c: "getInitializedPools env pools src dest limitPools = (warnings, candidates)"
    and m: "pool \<in> set candidates"
    and p: "(token0 (key pool), token1 (key pool)) = sortAndConvertTokens env src dest"
    and l: "list_all2 (\<lambda>a q. quote env pool (inputAmount (quoteContext env src dest side) a)
                              (amountTokenAddress (quoteContext env src dest side)) blk = Inr q \<and>
                           (isExactOut (quoteContext env src dest side) \<longrightarrow>
                              consumedAmount q = inputAmount (quoteContext env src dest side) a))
             (unitAmount (quoteContext env src dest side) # amounts) (uq # qs)"
  shows "quotePool env (quoteContext env src dest side) amounts blk pool =
           ([], Some \<lparr>prices = map calculatedAmount qs,
                      unit = calculatedAmount uq,
                      data = \<lparr>poolKey = key pool,
                              isToken1 = (amountTokenAddress (quoteContext env src dest side)
                                            = ctx_token1 (quoteContext env src dest side)),
                              skipAheadMap =
                                foldl (\<lambda>m (a, q). AList.update a (skipAhead q) m) []
                                  (zip (unitAmount (quoteContext env src dest side) # amounts)
                                       (uq # qs))\<rparr>,
                      poolIdentifier = string_id env (key pool),
                      exchange = dexKey env,
                      gasCost = map gasConsumed qs\<rparr>) \<and>
         \<lparr>prices = map calculatedAmount qs,
          unit = calculatedAmount uq,
          data = \<lparr>poolKey = key pool,
                  isToken1 = (amountTokenAddress (quoteContext env src dest side)
                                = ctx_token1 (quoteContext env src dest side)),
                  skipAheadMap =
                    foldl (\<lambda>m (a, q). AList.update a (skipAhead q) m) []
                      (zip (unitAmount (quoteContext env src dest side) # amounts) (uq # qs))\<rparr>,
          poolIdentifier = string_id env (key pool),
          exchange = dexKey env,
          gasCost = map gasConsumed qs\<rparr>
           \<in> set (snd (getPricesVolume env pools src dest amounts side blk limitPools))"
    (is "?A \<and> ?B")
proof -
  let ?ctx = "quoteContext env src dest side"
  have pair: "sortAndConvertTokens env src dest = (ctx_token0 ?ctx, ctx_token1 ?ctx)"
    by (simp add: quoteContext_fields)
  with p have k: "token0 (key pool) = ctx_token0 ?ctx" "token1 (key pool) = ctx_token1 ?ctx"
    by simp_all
  have a: ?A
    by (rule quotePool_complete[OF k l])
  then have "snd (quotePool env ?ctx amounts blk pool) =
      Some \<lparr>prices = map calculatedAmount qs,
          unit = calculatedAmount uq,
          data = \<lparr>poolKey = key pool,
                  isToken1 = (amountTokenAddress ?ctx = ctx_token1 ?ctx),
                  skipAheadMap =
                    foldl (\<lambda>m (a, q). AList.update a (skipAhead q) m) []
                      (zip (unitAmount ?ctx # amounts) (uq # qs))\<rparr>,
          poolIdentifier = string_id env (key pool),
          exchange = dexKey env,
          gasCost = map gasConsumed qs\<rparr>"
    by (simp only: snd_conv)
  from map_filter_Some_mem[where f = "\<lambda>p. snd (quotePool env ?ctx amounts blk p)", OF m this] have ?B
    by (simp only: getPricesVolume_prices[OF c])
  with a show ?thesis by (rule conjI)
qed

text \<open>
  C1. For a BUY (exact-out) request, every price point returned comes from a candidate
  pool whose quote consumed exactly the negated amount, for the unit amount and for
  every requested amount. A pool with one quote whose consumed amount differs yields no
  price point. The result is the candidates' own contributions in candidate order, each
  a function of the request and of that pool alone.
\<close>

theorem getPricesVolume_buy_exact_output:
  assumes "getInitializedPools env pools src dest limitPools = (warnings, candidates)"
  shows "(\<forall>pp\<in>set (snd (getPricesVolume env pools src dest amounts BUY blk limitPools)).
            \<exists>pool\<in>set candidates.
              snd (quotePool env (quoteContext env src dest BUY) amounts blk pool) = Some pp \<and>
              poolKey (data pp) = key pool \<and>
              poolIdentifier pp = string_id env (key pool) \<and>
              (\<forall>a\<in>set (getBigIntPow (decimals dest) # amounts).
                 \<exists>q. quote env pool (- a) (convertParaSwapToEkubo env (address dest)) blk = Inr q \<and>
                     consumedAmount q = - a)) \<and>
         (\<forall>pool a q.
            a \<in> set (getBigIntPow (decimals dest) # amounts) \<and>
            quote env pool (- a) (convertParaSwapToEkubo env (address dest)) blk = Inr q \<and>
            consumedAmount q \<noteq> - a \<longrightarrow>
            snd (quotePool env (quoteContext env src dest BUY) amounts blk pool) = None) \<and>
         snd (getPricesVolume env pools src dest amounts BUY blk limitPools) =
           List.map_filter (\<lambda>p. snd (quotePool env (quoteContext env src dest BUY) amounts blk p))
             candidates"
proof -
  let ?ctx = "quoteContext env src dest BUY"
  have ctx: "isExactOut ?ctx" "amountTokenAddress ?ctx = convertParaSwapToEkubo env (address dest)"
    "unitAmount ?ctx = getBigIntPow (decimals dest)" "\<And>a. inputAmount ?ctx a = - a"
    by (simp_all add: quoteContext_fields amountToken_def inputAmount_def)
  have all: "\<forall>a\<in>set (getBigIntPow (decimals dest) # amounts).
                 \<exists>q. quote env pool (- a) (convertParaSwapToEkubo env (address dest)) blk = Inr q \<and>
                     consumedAmount q = - a"
    if "snd (quotePool env ?ctx amounts blk pool) = Some pp" for pool pp
  proof -
    from that obtain lg where "quotePool env ?ctx amounts blk pool = (lg, Some pp)"
      by (cases "quotePool env ?ctx amounts blk pool") simp
    from quotePool_Some[OF this] obtain uq qs where
      "list_all2 (\<lambda>a q. quote env pool (- a) (convertParaSwapToEkubo env (address dest)) blk = Inr q \<and>
                         consumedAmount q = - a)
                 (getBigIntPow (decimals dest) # amounts) (uq # qs)"
      by (auto simp: ctx)
    from list_all2_quoted[OF this] show ?thesis by blast
  qed
  have prices: "snd (getPricesVolume env pools src dest amounts BUY blk limitPools) =
           List.map_filter (\<lambda>p. snd (quotePool env ?ctx amounts blk p)) candidates"
    by (rule getPricesVolume_prices[OF assms])
  have part1: "\<exists>pool\<in>set candidates.
              snd (quotePool env ?ctx amounts blk pool) = Some pp \<and>
              poolKey (data pp) = key pool \<and>
              poolIdentifier pp = string_id env (key pool) \<and>
              (\<forall>a\<in>set (getBigIntPow (decimals dest) # amounts).
                 \<exists>q. quote env pool (- a) (convertParaSwapToEkubo env (address dest)) blk = Inr q \<and>
                     consumedAmount q = - a)"
    if "pp \<in> set (snd (getPricesVolume env pools src dest amounts BUY blk limitPools))" for pp
  proof -
    from that prices obtain pool where p: "pool \<in> set candidates"
      "snd (quotePool env ?ctx amounts blk pool) = Some pp"
      by (auto simp: map_filter_mem)
    from p(2) obtain lg where "quotePool env ?ctx amounts blk pool = (lg, Some pp)"
      by (cases "quotePool env ?ctx amounts blk pool") simp
    from quotePool_Some[OF this] have "poolKey (data pp) = key pool"
      "poolIdentifier pp = string_id env (key pool)" by simp_all
    with p all[OF p(2)] show ?thesis by blast
  qed
  have part2: "snd (quotePool env ?ctx amounts blk pool) = None"
    if "a \<in> set (getBigIntPow (decimals dest) # amounts)"
       "quote env pool (- a) (convertParaSwapToEkubo env (address dest)) blk = Inr q"
       "consumedAmount q \<noteq> - a" for pool a q
  proof (cases "snd (quotePool env ?ctx amounts blk pool)")
    case None
    then show ?thesis .
  next
    case (Some pp)
    from all[OF Some] that show ?thesis by fastforce
  qed
  from part1 part2 prices show ?thesis by blast
qed

theorem getPricesVolume_buy_exact_output_witness:
  "getInitializedPools demo_env demo_pools demo_src demo_dest None
     = ([], [demo_pool 1 2 1 100, demo_pool 1 2 2 5, demo_pool 1 2 3 (- 1)]) \<and>
   snd (getPricesVolume demo_env demo_pools demo_src demo_dest [3, 20] BUY 7 None)
     = [\<lparr>prices = [6, 40], unit = 20,
         data = \<lparr>poolKey = demo_key 1 2 1, isToken1 = True,
                 skipAheadMap = [(10, 0), (3, 0), (20, 0)]\<rparr>,
         poolIdentifier = ''ttf'', exchange = ''Ekubo'', gasCost = [7, 7]\<rparr>] \<and>
   quote demo_env (demo_pool 1 2 2 5) (- 10) (convertParaSwapToEkubo demo_env (address demo_dest)) 7
     = Inr \<lparr>consumedAmount = - 5, calculatedAmount = 10, gasConsumed = 7, skipAhead = 0\<rparr> \<and>
   snd (quotePool demo_env (quoteContext demo_env demo_src demo_dest BUY) [3, 20] 7
          (demo_pool 1 2 2 5)) = None \<and>
   (\<exists>pool\<in>set [demo_pool 1 2 1 100, demo_pool 1 2 2 5, demo_pool 1 2 3 (- 1)].
      poolIdentifier \<lparr>prices = [6, 40], unit = 20,
         data = \<lparr>poolKey = demo_key 1 2 1, isToken1 = True,
                 skipAheadMap = [(10, 0), (3, 0), (20, 0)]\<rparr>,
         poolIdentifier = ''ttf'', exchange = ''Ekubo'', gasCost = [7, 7]\<rparr>
        = string_id demo_env (key pool) \<and>
      (\<exists>q. quote demo_env pool (- 20) (convertParaSwapToEkubo demo_env (address demo_dest)) 7 = Inr q \<and>
           consumedAmount q = - 20))"
proof -
  let ?cands = "[demo_pool 1 2 1 100, demo_pool 1 2 2 5, demo_pool 1 2 3 (- 1)]"
  let ?pp = "\<lparr>prices = [6, 40], unit = 20,
         data = \<lparr>poolKey = demo_key 1 2 1, isToken1 = True,
                 skipAheadMap = [(10, 0), (3, 0), (20, 0)]\<rparr>,
         poolIdentifier = ''ttf'', exchange = ''Ekubo'', gasCost = [7, 7]\<rparr>"
  let ?q = "\<lparr>consumedAmount = - 5, calculatedAmount = 10, gasConsumed = 7, skipAhead = 0\<rparr>"
  have h: "getInitializedPools demo_env demo_pools demo_src demo_dest None = ([], ?cands)"
    by (simp add: quoting_defs demo_defs)
  have r: "snd (getPricesVolume demo_env demo_pools demo_src demo_dest [3, 20] BUY 7 None) = [?pp]"
    by (simp add: quoting_defs demo_defs)
  have q: "quote demo_env (demo_pool 1 2 2 5) (- 10)
             (convertParaSwapToEkubo demo_env (address demo_dest)) 7 = Inr ?q"
    by (simp add: demo_defs)
  note t = getPricesVolume_buy_exact_output[OF h, where amounts = "[3, 20]" and blk = 7]
  from t have skip: "\<forall>pool a q.
            a \<in> set (getBigIntPow (decimals demo_dest) # [3, 20]) \<and>
            quote demo_env pool (- a) (convertParaSwapToEkubo demo_env (address demo_dest)) 7 = Inr q \<and>
            consumedAmount q \<noteq> - a \<longrightarrow>
            snd (quotePool demo_env (quoteContext demo_env demo_src demo_dest BUY) [3, 20] 7 pool) = None"
    by blast
  have "10 \<in> set (getBigIntPow (decimals demo_dest) # [3, 20])"
    by (simp add: getBigIntPow_def demo_defs)
  with skip q have none: "snd (quotePool demo_env (quoteContext demo_env demo_src demo_dest BUY)
                               [3, 20] 7 (demo_pool 1 2 2 5)) = None"
    by fastforce
  from t have every: "\<forall>pp\<in>set (snd (getPricesVolume demo_env demo_pools demo_src demo_dest [3, 20] BUY 7 None)).
            \<exists>pool\<in>set ?cands.
              snd (quotePool demo_env (quoteContext demo_env demo_src demo_dest BUY) [3, 20] 7 pool) = Some pp \<and>
              poolKey (data pp) = key pool \<and>
              poolIdentifier pp = string_id demo_env (key pool) \<and>
              (\<forall>a\<in>set (getBigIntPow (decimals demo_dest) # [3, 20]).
                 \<exists>q. quote demo_env pool (- a) (convertParaSwapToEkubo demo_env (address demo_dest)) 7 = Inr q \<and>
                     consumedAmount q = - a)"
    by blast
  have "?pp \<in> set (snd (getPricesVolume demo_env demo_pools demo_src demo_dest [3, 20] BUY 7 None))"
    by (simp only: r) simp
  from bspec[OF every this] obtain pool where
    p: "pool \<in> set ?cands" "poolIdentifier ?pp = string_id demo_env (key pool)"
       "\<forall>a\<in>set (getBigIntPow (decimals demo_dest) # [3, 20]).
                 \<exists>q. quote demo_env pool (- a) (convertParaSwapToEkubo demo_env (address demo_dest)) 7 = Inr q \<and>
                     consumedAmount q = - a"
    by blast
  from p(3) have "\<exists>q. quote demo_env pool (- 20) (convertParaSwapToEkubo demo_env (address demo_dest)) 7 = Inr q \<and>
           consumedAmount q = - 20"
    by simp
  with p(1,2) have ex: "\<exists>pool\<in>set ?cands.
      poolIdentifier ?pp = string_id demo_env (key pool) \<and>
      (\<exists>q. quote demo_env pool (- 20) (convertParaSwapToEkubo demo_env (address demo_dest)) 7 = Inr q \<and>
           consumedAmount q = - 20)"
    by blast
  from h r q none ex show ?thesis
    by (intro conjI)
qed

text \<open>
  C2. Whether or not an allow-list is given, every price point comes from a candidate
  pool whose key holds the sorted pair of the request. A candidate whose key holds
  another pair is logged as an error and yields no price point, and the request still
  returns the contributions of the other candidates.
\<close>

theorem getPricesVolume_pair_checked:
  assumes "getInitializedPools env pools src dest limitPools = (warnings, candidates)"
  shows "(\<forall>pp\<in>set (snd (getPricesVolume env pools src dest amounts side blk limitPools)).
            \<exists>pool\<in>set candidates.
              snd (quotePool env (quoteContext env src dest side) amounts blk pool) = Some pp \<and>
              poolKey (data pp) = key pool \<and>
              poolIdentifier pp = string_id env (key pool) \<and>
              (token0 (key pool), token1 (key pool)) = sortAndConvertTokens env src dest) \<and>
         (\<forall>pool\<in>set candidates.
            (token0 (key pool), token1 (key pool)) \<noteq> sortAndConvertTokens env src dest \<longrightarrow>
            quotePool env (quoteContext env src dest side) amounts blk pool =
              ([Error_cant_quote_pair (fst (sortAndConvertTokens env src dest))
                  (snd (sortAndConvertTokens env src dest)) (string_id env (key pool))], None) \<and>
            Error_cant_quote_pair (fst (sortAndConvertTokens env src dest))
                  (snd (sortAndConvertTokens env src dest)) (string_id env (key pool))
              \<in> set (fst (getPricesVolume env pools src dest amounts side blk limitPools))) \<and>
         snd (getPricesVolume env pools src dest amounts side blk limitPools) =
           List.map_filter (\<lambda>p. snd (quotePool env (quoteContext env src dest side) amounts blk p))
             candidates"
proof -
  let ?ctx = "quoteContext env src dest side"
  let ?res = "getPricesVolume env pools src dest amounts side blk limitPools"
  have pair: "sortAndConvertTokens env src dest = (ctx_token0 ?ctx, ctx_token1 ?ctx)"
    by (simp add: quoteContext_fields)
  have prices: "snd ?res = List.map_filter (\<lambda>p. snd (quotePool env ?ctx amounts blk p)) candidates"
    by (rule getPricesVolume_prices[OF assms])
  have logs: "fst ?res = warnings @ concat (map (\<lambda>p. fst (quotePool env ?ctx amounts blk p)) candidates)"
    by (rule getPricesVolume_logs[OF assms])
  have part1: "\<exists>pool\<in>set candidates.
              snd (quotePool env ?ctx amounts blk pool) = Some pp \<and>
              poolKey (data pp) = key pool \<and>
              poolIdentifier pp = string_id env (key pool) \<and>
              (token0 (key pool), token1 (key pool)) = sortAndConvertTokens env src dest"
    if "pp \<in> set (snd ?res)" for pp
  proof -
    from that prices obtain pool where p: "pool \<in> set candidates"
      "snd (quotePool env ?ctx amounts blk pool) = Some pp"
      by (auto simp: map_filter_mem)
    from p(2) obtain lg where "quotePool env ?ctx amounts blk pool = (lg, Some pp)"
      by (cases "quotePool env ?ctx amounts blk pool") simp
    from quotePool_Some[OF this] have "poolKey (data pp) = key pool"
      "poolIdentifier pp = string_id env (key pool)"
      "token0 (key pool) = ctx_token0 ?ctx" "token1 (key pool) = ctx_token1 ?ctx"
      by simp_all
    with p pair show ?thesis by auto
  qed
  have part2: "quotePool env ?ctx amounts blk pool =
              ([Error_cant_quote_pair (fst (sortAndConvertTokens env src dest))
                  (snd (sortAndConvertTokens env src dest)) (string_id env (key pool))], None) \<and>
            Error_cant_quote_pair (fst (sortAndConvertTokens env src dest))
                  (snd (sortAndConvertTokens env src dest)) (string_id env (key pool))
              \<in> set (fst ?res)"
    if "pool \<in> set candidates"
       "(token0 (key pool), token1 (key pool)) \<noteq> sortAndConvertTokens env src dest" for pool
  proof -
    from that(2) pair
    have "token0 (key pool) \<noteq> ctx_token0 ?ctx \<or> token1 (key pool) \<noteq> ctx_token1 ?ctx"
      by auto
    then have q: "quotePool env ?ctx amounts blk pool =
              ([Error_cant_quote_pair (ctx_token0 ?ctx) (ctx_token1 ?ctx) (string_id env (key pool))], None)"
      by (simp add: quotePool_def Let_def)
    with that(1) logs have "Error_cant_quote_pair (ctx_token0 ?ctx) (ctx_token1 ?ctx)
        (string_id env (key pool)) \<in> set (fst ?res)"
      by force
    with q pair show ?thesis by simp
  qed
  from part1 part2 prices show ?thesis by blast
qed

theorem getPricesVolume_pair_checked_witness:
  "getInitializedPools demo_env demo_pools demo_dest demo_src (Some [''tttf'', ''zz'', ''ttff'', ''ttfff''])
     = ([Warn_pool_not_found ''zz''], [demo_pool 1 3 1 100, demo_pool 1 2 2 5, demo_pool 1 2 3 (- 1)]) \<and>
   sortAndConvertTokens demo_env demo_dest demo_src = (1, 2) \<and>
   (token0 (key (demo_pool 1 3 1 100)), token1 (key (demo_pool 1 3 1 100))) = (1, 3) \<and>
   quotePool demo_env (quoteContext demo_env demo_dest demo_src SELL) [3, 20] 7 (demo_pool 1 3 1 100)
     = ([Error_cant_quote_pair (fst (sortAndConvertTokens demo_env demo_dest demo_src))
           (snd (sortAndConvertTokens demo_env demo_dest demo_src))
           (string_id demo_env (key (demo_pool 1 3 1 100)))], None) \<and>
   Error_cant_quote_pair (fst (sortAndConvertTokens demo_env demo_dest demo_src))
           (snd (sortAndConvertTokens demo_env demo_dest demo_src))
           (string_id demo_env (key (demo_pool 1 3 1 100)))
     \<in> set (fst (getPricesVolume demo_env demo_pools demo_dest demo_src [3, 20] SELL 7
                    (Some [''tttf'', ''zz'', ''ttff'', ''ttfff'']))) \<and>
   snd (getPricesVolume demo_env demo_pools demo_dest demo_src [3, 20] SELL 7
          (Some [''tttf'', ''zz'', ''ttff'', ''ttfff'']))
     = [\<lparr>prices = [3, 5], unit = 5,
         data = \<lparr>poolKey = demo_key 1 2 2, isToken1 = True,
                 skipAheadMap = [(10, 1), (3, 1), (20, 1)]\<rparr>,
         poolIdentifier = ''ttff'', exchange = ''Ekubo'', gasCost = [9, 9]\<rparr>] \<and>
   (\<exists>pool\<in>set [demo_pool 1 3 1 100, demo_pool 1 2 2 5, demo_pool 1 2 3 (- 1)].
      poolKey (data \<lparr>prices = [3, 5], unit = 5,
         data = \<lparr>poolKey = demo_key 1 2 2, isToken1 = True,
                 skipAheadMap = [(10, 1), (3, 1), (20, 1)]\<rparr>,
         poolIdentifier = ''ttff'', exchange = ''Ekubo'', gasCost = [9, 9]\<rparr>) = key pool \<and>
      (token0 (key pool), token1 (key pool)) = sortAndConvertTokens demo_env demo_dest demo_src)"
proof -
  let ?lim = "Some [''tttf'', ''zz'', ''ttff'', ''ttfff'']"
  let ?cands = "[demo_pool 1 3 1 100, demo_pool 1 2 2 5, demo_pool 1 2 3 (- 1)]"
  let ?pp = "\<lparr>prices = [3, 5], unit = 5,
         data = \<lparr>poolKey = demo_key 1 2 2, isToken1 = True,
                 skipAheadMap = [(10, 1), (3, 1), (20, 1)]\<rparr>,
         poolIdentifier = ''ttff'', exchange = ''Ekubo'', gasCost = [9, 9]\<rparr>"
  have h: "getInitializedPools demo_env demo_pools demo_dest demo_src ?lim
             = ([Warn_pool_not_found ''zz''], ?cands)"
    by (simp add: quoting_defs demo_defs)
  have s: "sortAndConvertTokens demo_env demo_dest demo_src = (1, 2)"
    by (simp add: quoting_defs demo_defs)
  have k: "(token0 (key (demo_pool 1 3 1 100)), token1 (key (demo_pool 1 3 1 100))) = (1, 3)"
    by (simp add: demo_defs)
  have r: "snd (getPricesVolume demo_env demo_pools demo_dest demo_src [3, 20] SELL 7 ?lim) = [?pp]"
    by (simp add: quoting_defs demo_defs)
  note t = getPricesVolume_pair_checked[OF h, where amounts = "[3, 20]" and blk = 7 and side = SELL]
  from t have rej: "\<forall>pool\<in>set ?cands.
            (token0 (key pool), token1 (key pool)) \<noteq> sortAndConvertTokens demo_env demo_dest demo_src \<longrightarrow>
            quotePool demo_env (quoteContext demo_env demo_dest demo_src SELL) [3, 20] 7 pool =
              ([Error_cant_quote_pair (fst (sortAndConvertTokens demo_env demo_dest demo_src))
                  (snd (sortAndConvertTokens demo_env demo_dest demo_src)) (string_id demo_env (key pool))], None) \<and>
            Error_cant_quote_pair (fst (sortAndConvertTokens demo_env demo_dest demo_src))
                  (snd (sortAndConvertTokens demo_env demo_dest demo_src)) (string_id demo_env (key pool))
              \<in> set (fst (getPricesVolume demo_env demo_pools demo_dest demo_src [3, 20] SELL 7 ?lim))"
    by blast
  have mem: "demo_pool 1 3 1 100 \<in> set ?cands" by simp
  have ne: "(token0 (key (demo_pool 1 3 1 100)), token1 (key (demo_pool 1 3 1 100)))
              \<noteq> sortAndConvertTokens demo_env demo_dest demo_src"
    by (simp only: s k) simp
  from bspec[OF rej mem] ne
  have rejected: "quotePool demo_env (quoteContext demo_env demo_dest demo_src SELL) [3, 20] 7 (demo_pool 1 3 1 100) =
              ([Error_cant_quote_pair (fst (sortAndConvertTokens demo_env demo_dest demo_src))
                  (snd (sortAndConvertTokens demo_env demo_dest demo_src))
                  (string_id demo_env (key (demo_pool 1 3 1 100)))], None)"
    and logged: "Error_cant_quote_pair (fst (sortAndConvertTokens demo_env demo_dest demo_src))
                  (snd (sortAndConvertTokens demo_env demo_dest demo_src))
                  (string_id demo_env (key (demo_pool 1 3 1 100)))
              \<in> set (fst (getPricesVolume demo_env demo_pools demo_dest demo_src [3, 20] SELL 7 ?lim))"
    by blast+
  from t have every: "\<forall>pp\<in>set (snd (getPricesVolume demo_env demo_pools demo_dest demo_src [3, 20] SELL 7 ?lim)).
            \<exists>pool\<in>set ?cands.
              snd (quotePool demo_env (quoteContext demo_env demo_dest demo_src SELL) [3, 20] 7 pool) = Some pp \<and>
              poolKey (data pp) = key pool \<and>
              poolIdentifier pp = string_id demo_env (key pool) \<and>
              (token0 (key pool), token1 (key pool)) = sortAndConvertTokens demo_env demo_dest demo_src"
    by blast
  have "?pp \<in> set (snd (getPricesVolume demo_env demo_pools demo_dest demo_src [3, 20] SELL 7 ?lim))"
    by (simp only: r) simp
  from bspec[OF every this]
  have ex: "\<exists>pool\<in>set ?cands. poolKey (data ?pp) = key pool \<and>
      (token0 (key pool), token1 (key pool)) = sortAndConvertTokens demo_env demo_dest demo_src"
    by blast
  from h s k rejected logged r ex show ?thesis
    by (intro conjI)
qed

text \<open>
  C6. If \<^verbatim>\<open>pool.quote\<close> throws for a candidate pool (at the first amount of the unit
  amount and the requested amounts, in this order, that is not quoted normally), the
  exception is logged, the pool yields no price point, and the request returns the
  contributions of the other candidates: a candidate with the pair of the request whose
  quotes all succeed (and, for BUY, consume the negated amount) has its price point,
  built from those quotes, in the result. When no candidate contributes, the result is
  the empty list.
\<close>

theorem getPricesVolume_isolates_quote_errors:
  assumes "getInitializedPools env pools src dest limitPools = (warnings, candidates)"
  shows "(\<forall>pool\<in>set candidates. \<forall>ys a zs e.
            (token0 (key pool), token1 (key pool)) = sortAndConvertTokens env src dest \<and>
            unitAmount (quoteContext env src dest side) # amounts = ys @ a # zs \<and>
            (\<forall>b\<in>set ys. \<exists>q.
               quote env pool (inputAmount (quoteContext env src dest side) b)
                 (amountTokenAddress (quoteContext env src dest side)) blk = Inr q \<and>
               (side = BUY \<longrightarrow> consumedAmount q = inputAmount (quoteContext env src dest side) b)) \<and>
            quote env pool (inputAmount (quoteContext env src dest side) a)
                 (amountTokenAddress (quoteContext env src dest side)) blk = Inl e \<longrightarrow>
            quotePool env (quoteContext env src dest side) amounts blk pool =
              ([Error_quote_error e], None) \<and>
            Error_quote_error e
              \<in> set (fst (getPricesVolume env pools src dest amounts side blk limitPools))) \<and>
         snd (getPricesVolume env pools src dest amounts side blk limitPools) =
           List.map_filter (\<lambda>p. snd (quotePool env (quoteContext env src dest side) amounts blk p))
             candidates \<and>
         ((\<forall>pool\<in>set candidates.
             snd (quotePool env (quoteContext env src dest side) amounts blk pool) = None) \<longrightarrow>
          snd (getPricesVolume env pools src dest amounts side blk limitPools) = []) \<and>
         (\<forall>pool\<in>set candidates. \<forall>uq qs.
            (token0 (key pool), token1 (key pool)) = sortAndConvertTokens env src dest \<and>
            list_all2
              (\<lambda>a q. quote env pool (inputAmount (quoteContext env src dest side) a)
                       (amountTokenAddress (quoteContext env src dest side)) blk = Inr q \<and>
                     (side = BUY \<longrightarrow>
                        consumedAmount q = inputAmount (quoteContext env src dest side) a))
              (unitAmount (quoteContext env src dest side) # amounts) (uq # qs) \<longrightarrow>
            quotePool env (quoteContext env src dest side) amounts blk pool =
              ([], Some \<lparr>prices = map calculatedAmount qs,
                unit = calculatedAmount uq,
                data = \<lparr>poolKey = key pool,
                        isToken1 = (amountTokenAddress (quoteContext env src dest side)
                                      = ctx_token1 (quoteContext env src dest side)),
                        skipAheadMap =
                          foldl (\<lambda>m (a, q). AList.update a (skipAhead q) m) []
                            (zip (unitAmount (quoteContext env src dest side) # amounts)
                                 (uq # qs))\<rparr>,
                poolIdentifier = string_id env (key pool),
                exchange = dexKey env,
                gasCost = map gasConsumed qs\<rparr>) \<and>
            \<lparr>prices = map calculatedAmount qs,
                unit = calculatedAmount uq,
                data = \<lparr>poolKey = key pool,
                        isToken1 = (amountTokenAddress (quoteContext env src dest side)
                                      = ctx_token1 (quoteContext env src dest side)),
                        skipAheadMap =
                          foldl (\<lambda>m (a, q). AList.update a (skipAhead q) m) []
                            (zip (unitAmount (quoteContext env src dest side) # amounts)
                                 (uq # qs))\<rparr>,
                poolIdentifier = string_id env (key pool),
                exchange = dexKey env,
                gasCost = map gasConsumed qs\<rparr>
              \<in> set (snd (getPricesVolume env pools src dest amounts side blk limitPools)))"
proof -
  let ?ctx = "quoteContext env src dest side"
  let ?res = "getPricesVolume env pools src dest amounts side blk limitPools"
  have pair: "sortAndConvertTokens env src dest = (ctx_token0 ?ctx, ctx_token1 ?ctx)"
    by (simp add: quoteContext_fields)
  have ex: "isExactOut ?ctx = (side = BUY)"
    by (simp add: quoteContext_fields)
  have prices: "snd ?res = List.map_filter (\<lambda>p. snd (quotePool env ?ctx amounts blk p)) candidates"
    by (rule getPricesVolume_prices[OF assms])
  have logs: "fst ?res = warnings @ concat (map (\<lambda>p. fst (quotePool env ?ctx amounts blk p)) candidates)"
    by (rule getPricesVolume_logs[OF assms])
  have part1: "quotePool env ?ctx amounts blk pool = ([Error_quote_error e], None) \<and>
            Error_quote_error e \<in> set (fst ?res)"
    if "pool \<in> set candidates"
       "(token0 (key pool), token1 (key pool)) = sortAndConvertTokens env src dest"
       "unitAmount ?ctx # amounts = ys @ a # zs"
       "\<forall>b\<in>set ys. \<exists>q. quote env pool (inputAmount ?ctx b) (amountTokenAddress ?ctx) blk = Inr q \<and>
               (side = BUY \<longrightarrow> consumedAmount q = inputAmount ?ctx b)"
       "quote env pool (inputAmount ?ctx a) (amountTokenAddress ?ctx) blk = Inl e"
    for pool ys a zs e
  proof -
    from that(4) ex
    have "\<forall>b\<in>set ys. \<exists>q. quote env pool (inputAmount ?ctx b) (amountTokenAddress ?ctx) blk = Inr q \<and>
               (isExactOut ?ctx \<longrightarrow> consumedAmount q = inputAmount ?ctx b)"
      by simp
    from quoteAmounts_Thrown[OF this that(5), where zs=zs and qs="[]" and sk="[]"] that(3)
    have "quoteAmounts env ?ctx blk pool (unitAmount ?ctx # amounts) [] [] = Thrown e"
      by simp
    moreover from that(2) pair
    have "token0 (key pool) = ctx_token0 ?ctx" "token1 (key pool) = ctx_token1 ?ctx"
      by simp_all
    ultimately have q: "quotePool env ?ctx amounts blk pool = ([Error_quote_error e], None)"
      by (simp add: quotePool_def Let_def)
    with that(1) logs have "Error_quote_error e \<in> set (fst ?res)"
      by force
    with q show ?thesis by simp
  qed
  have part3: "snd ?res = []"
    if "\<forall>pool\<in>set candidates. snd (quotePool env ?ctx amounts blk pool) = None"
    using map_filter_all_None[OF that] prices by simp
  have part4: "quotePool env ?ctx amounts blk pool =
              ([], Some \<lparr>prices = map calculatedAmount qs,
                unit = calculatedAmount uq,
                data = \<lparr>poolKey = key pool,
                        isToken1 = (amountTokenAddress ?ctx
                                      = ctx_token1 ?ctx),
                        skipAheadMap =
                          foldl (\<lambda>m (a, q). AList.update a (skipAhead q) m) []
                            (zip (unitAmount ?ctx # amounts)
                                 (uq # qs))\<rparr>,
                poolIdentifier = string_id env (key pool),
                exchange = dexKey env,
                gasCost = map gasConsumed qs\<rparr>) \<and>
            \<lparr>prices = map calculatedAmount qs,
                unit = calculatedAmount uq,
                data = \<lparr>poolKey = key pool,
                        isToken1 = (amountTokenAddress ?ctx
                                      = ctx_token1 ?ctx),
                        skipAheadMap =
                          foldl (\<lambda>m (a, q). AList.update a (skipAhead q) m) []
                            (zip (unitAmount ?ctx # amounts)
                                 (uq # qs))\<rparr>,
                poolIdentifier = string_id env (key pool),
                exchange = dexKey env,
                gasCost = map gasConsumed qs\<rparr>
              \<in> set (snd ?res)"
    if "pool \<in> set candidates"
       "(token0 (key pool), token1 (key pool)) = sortAndConvertTokens env src dest"
       "list_all2
              (\<lambda>a q. quote env pool (inputAmount ?ctx a) (amountTokenAddress ?ctx) blk = Inr q \<and>
                     (side = BUY \<longrightarrow> consumedAmount q = inputAmount ?ctx a))
              (unitAmount ?ctx # amounts) (uq # qs)"
    for pool uq qs
  proof -
    from that(3) have "list_all2
              (\<lambda>a q. quote env pool (inputAmount ?ctx a) (amountTokenAddress ?ctx) blk = Inr q \<and>
                     (isExactOut ?ctx \<longrightarrow> consumedAmount q = inputAmount ?ctx a))
              (unitAmount ?ctx # amounts) (uq # qs)"
      by (simp only: ex)
    from getPricesVolume_complete[OF assms that(1,2) this] show ?thesis .
  qed
  show ?thesis
  proof (intro conjI ballI allI impI)
    fix pool ys a zs e
    assume "pool \<in> set candidates"
      and "(token0 (key pool), token1 (key pool)) = sortAndConvertTokens env src dest \<and>
            unitAmount ?ctx # amounts = ys @ a # zs \<and>
            (\<forall>b\<in>set ys. \<exists>q.
               quote env pool (inputAmount ?ctx b) (amountTokenAddress ?ctx) blk = Inr q \<and>
               (side = BUY \<longrightarrow> consumedAmount q = inputAmount ?ctx b)) \<and>
            quote env pool (inputAmount ?ctx a) (amountTokenAddress ?ctx) blk = Inl e"
    then have "quotePool env ?ctx amounts blk pool = ([Error_quote_error e], None) \<and>
            Error_quote_error e \<in> set (fst ?res)"
      using part1 by blast
    then show "quotePool env ?ctx amounts blk pool = ([Error_quote_error e], None)"
      and "Error_quote_error e \<in> set (fst ?res)"
      by simp_all
  next
    show "snd ?res = List.map_filter (\<lambda>p. snd (quotePool env ?ctx amounts blk p)) candidates"
      by (rule prices)
  next
    assume "\<forall>pool\<in>set candidates. snd (quotePool env ?ctx amounts blk pool) = None"
    then show "snd ?res = []" by (rule part3)
  next
    fix pool uq qs
    assume m: "pool \<in> set candidates"
      and "(token0 (key pool), token1 (key pool)) = sortAndConvertTokens env src dest \<and>
            list_all2
              (\<lambda>a q. quote env pool (inputAmount ?ctx a) (amountTokenAddress ?ctx) blk = Inr q \<and>
                     (side = BUY \<longrightarrow> consumedAmount q = inputAmount ?ctx a))
              (unitAmount ?ctx # amounts) (uq # qs)"
    then have p: "(token0 (key pool), token1 (key pool)) = sortAndConvertTokens env src dest"
      and l: "list_all2
              (\<lambda>a q. quote env pool (inputAmount ?ctx a) (amountTokenAddress ?ctx) blk = Inr q \<and>
                     (side = BUY \<longrightarrow> consumedAmount q = inputAmount ?ctx a))
              (unitAmount ?ctx # amounts) (uq # qs)"
      by simp_all
    note r = part4[OF m p l]
    from r show "quotePool env ?ctx amounts blk pool =
              ([], Some \<lparr>prices = map calculatedAmount qs,
                unit = calculatedAmount uq,
                data = \<lparr>poolKey = key pool,
                        isToken1 = (amountTokenAddress ?ctx
                                      = ctx_token1 ?ctx),
                        skipAheadMap =
                          foldl (\<lambda>m (a, q). AList.update a (skipAhead q) m) []
                            (zip (unitAmount ?ctx # amounts)
                                 (uq # qs))\<rparr>,
                poolIdentifier = string_id env (key pool),
                exchange = dexKey env,
                gasCost = map gasConsumed qs\<rparr>)"
      by (rule conjunct1)
    from r show "\<lparr>prices = map calculatedAmount qs,
                unit = calculatedAmount uq,
                data = \<lparr>poolKey = key pool,
                        isToken1 = (amountTokenAddress ?ctx
                                      = ctx_token1 ?ctx),
                        skipAheadMap =
                          foldl (\<lambda>m (a, q). AList.update a (skipAhead q) m) []
                            (zip (unitAmount ?ctx # amounts)
                                 (uq # qs))\<rparr>,
                poolIdentifier = string_id env (key pool),
                exchange = dexKey env,
                gasCost = map gasConsumed qs\<rparr>
              \<in> set (snd ?res)"
      by (rule conjunct2)
  qed
qed

theorem getPricesVolume_isolates_quote_errors_witness:
  "getInitializedPools demo_env demo_pools demo_dest demo_src (Some [''tttf'', ''zz'', ''ttff'', ''ttfff''])
     = ([Warn_pool_not_found ''zz''], [demo_pool 1 3 1 100, demo_pool 1 2 2 5, demo_pool 1 2 3 (- 1)]) \<and>
   (token0 (key (demo_pool 1 2 3 (- 1))), token1 (key (demo_pool 1 2 3 (- 1))))
     = sortAndConvertTokens demo_env demo_dest demo_src \<and>
   quote demo_env (demo_pool 1 2 3 (- 1))
     (inputAmount (quoteContext demo_env demo_dest demo_src SELL)
        (unitAmount (quoteContext demo_env demo_dest demo_src SELL)))
     (amountTokenAddress (quoteContext demo_env demo_dest demo_src SELL)) 7
     = Inl (Error ''tick out of range'') \<and>
   quotePool demo_env (quoteContext demo_env demo_dest demo_src SELL) [3, 20] 7 (demo_pool 1 2 3 (- 1))
     = ([Error_quote_error (Error ''tick out of range'')], None) \<and>
   Error_quote_error (Error ''tick out of range'')
     \<in> set (fst (getPricesVolume demo_env demo_pools demo_dest demo_src [3, 20] SELL 7
                    (Some [''tttf'', ''zz'', ''ttff'', ''ttfff'']))) \<and>
   snd (getPricesVolume demo_env demo_pools demo_dest demo_src [3, 20] SELL 7
          (Some [''tttf'', ''zz'', ''ttff'', ''ttfff'']))
     = [\<lparr>prices = [3, 5], unit = 5,
         data = \<lparr>poolKey = demo_key 1 2 2, isToken1 = True,
                 skipAheadMap = [(10, 1), (3, 1), (20, 1)]\<rparr>,
         poolIdentifier = ''ttff'', exchange = ''Ekubo'', gasCost = [9, 9]\<rparr>] \<and>
   getInitializedPools demo_env demo_pools demo_dest demo_src (Some [''ttfff'', ''tttf''])
     = ([], [demo_pool 1 2 3 (- 1), demo_pool 1 3 1 100]) \<and>
   snd (getPricesVolume demo_env demo_pools demo_dest demo_src [3, 20] SELL 7
          (Some [''ttfff'', ''tttf''])) = [] \<and>
   list_all2
     (\<lambda>a q. quote demo_env (demo_pool 1 2 2 5)
              (inputAmount (quoteContext demo_env demo_dest demo_src SELL) a)
              (amountTokenAddress (quoteContext demo_env demo_dest demo_src SELL)) 7 = Inr q \<and>
            (SELL = BUY \<longrightarrow>
               consumedAmount q = inputAmount (quoteContext demo_env demo_dest demo_src SELL) a))
     (unitAmount (quoteContext demo_env demo_dest demo_src SELL) # [3, 20])
     (\<lparr>consumedAmount = 10, calculatedAmount = 5, gasConsumed = 9, skipAhead = 1\<rparr> #
      [\<lparr>consumedAmount = 3, calculatedAmount = 3, gasConsumed = 9, skipAhead = 1\<rparr>, \<lparr>consumedAmount = 20, calculatedAmount = 5, gasConsumed = 9, skipAhead = 1\<rparr>]) \<and>
   \<lparr>prices = map calculatedAmount [\<lparr>consumedAmount = 3, calculatedAmount = 3, gasConsumed = 9, skipAhead = 1\<rparr>, \<lparr>consumedAmount = 20, calculatedAmount = 5, gasConsumed = 9, skipAhead = 1\<rparr>],
                unit = calculatedAmount \<lparr>consumedAmount = 10, calculatedAmount = 5, gasConsumed = 9, skipAhead = 1\<rparr>,
                data = \<lparr>poolKey = key (demo_pool 1 2 2 5),
                        isToken1 = (amountTokenAddress (quoteContext demo_env demo_dest demo_src SELL)
                                      = ctx_token1 (quoteContext demo_env demo_dest demo_src SELL)),
                        skipAheadMap =
                          foldl (\<lambda>m (a, q). AList.update a (skipAhead q) m) []
                            (zip (unitAmount (quoteContext demo_env demo_dest demo_src SELL) # [3, 20])
                                 (\<lparr>consumedAmount = 10, calculatedAmount = 5, gasConsumed = 9, skipAhead = 1\<rparr> # [\<lparr>consumedAmount = 3, calculatedAmount = 3, gasConsumed = 9, skipAhead = 1\<rparr>, \<lparr>consumedAmount = 20, calculatedAmount = 5, gasConsumed = 9, skipAhead = 1\<rparr>]))\<rparr>,
                poolIdentifier = string_id demo_env (key (demo_pool 1 2 2 5)),
                exchange = dexKey demo_env,
                gasCost = map gasConsumed [\<lparr>consumedAmount = 3, calculatedAmount = 3, gasConsumed = 9, skipAhead = 1\<rparr>, \<lparr>consumedAmount = 20, calculatedAmount = 5, gasConsumed = 9, skipAhead = 1\<rparr>]\<rparr>
     \<in> set (snd (getPricesVolume demo_env demo_pools demo_dest demo_src [3, 20] SELL 7
                    (Some [''tttf'', ''zz'', ''ttff'', ''ttfff''])))"
proof -
  let ?good = "demo_pool 1 2 2 5"
  let ?uq = "\<lparr>consumedAmount = 10, calculatedAmount = 5, gasConsumed = 9, skipAhead = 1\<rparr>"
  let ?qs = "[\<lparr>consumedAmount = 3, calculatedAmount = 3, gasConsumed = 9, skipAhead = 1\<rparr>, \<lparr>consumedAmount = 20, calculatedAmount = 5, gasConsumed = 9, skipAhead = 1\<rparr>]"
  let ?lim = "Some [''tttf'', ''zz'', ''ttff'', ''ttfff'']"
  let ?cands = "[demo_pool 1 3 1 100, demo_pool 1 2 2 5, demo_pool 1 2 3 (- 1)]"
  let ?ctx = "quoteContext demo_env demo_dest demo_src SELL"
  let ?bad = "demo_pool 1 2 3 (- 1)"
  let ?e = "Error ''tick out of range''"
  have h: "getInitializedPools demo_env demo_pools demo_dest demo_src ?lim
             = ([Warn_pool_not_found ''zz''], ?cands)"
    by (simp add: quoting_defs demo_defs)
  have pair: "(token0 (key ?bad), token1 (key ?bad)) = sortAndConvertTokens demo_env demo_dest demo_src"
    by (simp add: quoting_defs demo_defs)
  have thrown: "quote demo_env ?bad (inputAmount ?ctx (unitAmount ?ctx)) (amountTokenAddress ?ctx) 7 = Inl ?e"
    by (simp add: demo_defs)
  have r: "snd (getPricesVolume demo_env demo_pools demo_dest demo_src [3, 20] SELL 7 ?lim)
     = [\<lparr>prices = [3, 5], unit = 5,
         data = \<lparr>poolKey = demo_key 1 2 2, isToken1 = True,
                 skipAheadMap = [(10, 1), (3, 1), (20, 1)]\<rparr>,
         poolIdentifier = ''ttff'', exchange = ''Ekubo'', gasCost = [9, 9]\<rparr>]"
    by (simp add: quoting_defs demo_defs)
  note t = getPricesVolume_isolates_quote_errors
             [OF h, where amounts = "[3, 20]" and blk = 7 and side = SELL]
  from t have iso: "\<forall>pool\<in>set ?cands. \<forall>ys a zs e.
            (token0 (key pool), token1 (key pool)) = sortAndConvertTokens demo_env demo_dest demo_src \<and>
            unitAmount ?ctx # [3, 20] = ys @ a # zs \<and>
            (\<forall>b\<in>set ys. \<exists>q.
               quote demo_env pool (inputAmount ?ctx b) (amountTokenAddress ?ctx) 7 = Inr q \<and>
               (SELL = BUY \<longrightarrow> consumedAmount q = inputAmount ?ctx b)) \<and>
            quote demo_env pool (inputAmount ?ctx a) (amountTokenAddress ?ctx) 7 = Inl e \<longrightarrow>
            quotePool demo_env ?ctx [3, 20] 7 pool = ([Error_quote_error e], None) \<and>
            Error_quote_error e
              \<in> set (fst (getPricesVolume demo_env demo_pools demo_dest demo_src [3, 20] SELL 7 ?lim))"
    by blast
  have mem: "?bad \<in> set ?cands" by simp
  have shape: "unitAmount ?ctx # [3, 20] = [] @ unitAmount ?ctx # [3, 20]" by simp
  from bspec[OF iso mem, rule_format, of "[]" "unitAmount ?ctx" "[3, 20]" ?e] pair thrown shape
  have caught: "quotePool demo_env ?ctx [3, 20] 7 ?bad = ([Error_quote_error ?e], None)"
    and logged: "Error_quote_error ?e
              \<in> set (fst (getPricesVolume demo_env demo_pools demo_dest demo_src [3, 20] SELL 7 ?lim))"
    by simp_all
  have h2: "getInitializedPools demo_env demo_pools demo_dest demo_src (Some [''ttfff'', ''tttf''])
     = ([], [demo_pool 1 2 3 (- 1), demo_pool 1 3 1 100])"
    by (simp add: quoting_defs demo_defs)
  note t2 = getPricesVolume_isolates_quote_errors
             [OF h2, where amounts = "[3, 20]" and blk = 7 and side = SELL]
  have none: "\<forall>pool\<in>set [demo_pool 1 2 3 (- 1), demo_pool 1 3 1 100].
             snd (quotePool demo_env ?ctx [3, 20] 7 pool) = None"
    by (simp add: quoting_defs demo_defs)
  from t2 none
  have empty: "snd (getPricesVolume demo_env demo_pools demo_dest demo_src [3, 20] SELL 7
          (Some [''ttfff'', ''tttf''])) = []"
    by blast
  have gm: "?good \<in> set ?cands" by simp
  have gp: "(token0 (key ?good), token1 (key ?good)) = sortAndConvertTokens demo_env demo_dest demo_src"
    by (simp add: quoting_defs demo_defs)
  have gl: "list_all2
     (\<lambda>a q. quote demo_env ?good (inputAmount ?ctx a) (amountTokenAddress ?ctx) 7 = Inr q \<and>
            (SELL = BUY \<longrightarrow> consumedAmount q = inputAmount ?ctx a))
     (unitAmount ?ctx # [3, 20]) (?uq # ?qs)"
    by (simp add: quoting_defs demo_defs)
  note full = t[THEN conjunct2, THEN conjunct2, THEN conjunct2, THEN bspec, OF gm,
                rule_format, OF conjI, OF gp gl]
  note returned = full[THEN conjunct2]
  from h pair thrown caught logged r h2 empty gl returned show ?thesis
    by (intro conjI)
qed

lemma getPricesVolume_point_positional:
  assumes "getInitializedPools env pools src dest limitPools = (warnings, candidates)"
    and "pp \<in> set (snd (getPricesVolume env pools src dest amounts side blk limitPools))"
  shows "\<exists>pool\<in>set candidates.
           snd (quotePool env (quoteContext env src dest side) amounts blk pool) = Some pp \<and>
           poolIdentifier pp = string_id env (key pool) \<and>
           (\<exists>uq. quote env pool
                    (if side = BUY then - getBigIntPow (decimals dest) else getBigIntPow (decimals src))
                    (convertParaSwapToEkubo env (address (if side = BUY then dest else src))) blk = Inr uq \<and>
                 unit pp = calculatedAmount uq) \<and>
           length (prices pp) = length amounts \<and>
           length (gasCost pp) = length amounts \<and>
           (\<forall>i<length amounts.
              \<exists>q. quote env pool (if side = BUY then - (amounts ! i) else amounts ! i)
                     (convertParaSwapToEkubo env (address (if side = BUY then dest else src))) blk = Inr q \<and>
                  prices pp ! i = calculatedAmount q \<and>
                  gasCost pp ! i = gasConsumed q)"
proof -
  let ?ctx = "quoteContext env src dest side"
  have ctx: "amountTokenAddress ?ctx = convertParaSwapToEkubo env (address (if side = BUY then dest else src))"
    "inputAmount ?ctx (unitAmount ?ctx) =
       (if side = BUY then - getBigIntPow (decimals dest) else getBigIntPow (decimals src))"
    "\<And>a. inputAmount ?ctx a = (if side = BUY then - a else a)"
    by (simp_all add: quoteContext_fields amountToken_def inputAmount_def)
  from assms obtain pool where p: "pool \<in> set candidates"
      "snd (quotePool env ?ctx amounts blk pool) = Some pp"
    by (auto simp: getPricesVolume_prices[OF assms(1)] map_filter_mem)
  from p(2) obtain lg where "quotePool env ?ctx amounts blk pool = (lg, Some pp)"
    by (cases "quotePool env ?ctx amounts blk pool") simp
  from quotePool_Some[OF this] obtain uq qs where
    id: "poolIdentifier pp = string_id env (key pool)" and
    l: "list_all2 (\<lambda>a q. quote env pool (inputAmount ?ctx a) (amountTokenAddress ?ctx) blk = Inr q \<and>
                              (isExactOut ?ctx \<longrightarrow> consumedAmount q = inputAmount ?ctx a))
                      (unitAmount ?ctx # amounts) (uq # qs)" and
    u: "unit pp = calculatedAmount uq" and
    pr: "prices pp = map calculatedAmount qs" and
    g: "gasCost pp = map gasConsumed qs"
    by blast
  from l have uq: "quote env pool (inputAmount ?ctx (unitAmount ?ctx)) (amountTokenAddress ?ctx) blk = Inr uq"
    and l': "list_all2 (\<lambda>a q. quote env pool (inputAmount ?ctx a) (amountTokenAddress ?ctx) blk = Inr q \<and>
                              (isExactOut ?ctx \<longrightarrow> consumedAmount q = inputAmount ?ctx a)) amounts qs"
    by simp_all
  from l' have len: "length qs = length amounts"
    by (simp add: list_all2_lengthD)
  have nth: "\<exists>q. quote env pool (if side = BUY then - (amounts ! i) else amounts ! i)
                     (convertParaSwapToEkubo env (address (if side = BUY then dest else src))) blk = Inr q \<and>
                  prices pp ! i = calculatedAmount q \<and>
                  gasCost pp ! i = gasConsumed q" if "i < length amounts" for i
  proof -
    from l' that have "quote env pool (inputAmount ?ctx (amounts ! i)) (amountTokenAddress ?ctx) blk = Inr (qs ! i)"
      by (simp add: list_all2_conv_all_nth)
    with that len pr g show ?thesis
      by (simp add: ctx)
  qed
  from uq have "quote env pool
                    (if side = BUY then - getBigIntPow (decimals dest) else getBigIntPow (decimals src))
                    (convertParaSwapToEkubo env (address (if side = BUY then dest else src))) blk = Inr uq"
    by (simp add: quoteContext_fields amountToken_def inputAmount_def split: if_splits)
  with p id u pr g len nth show ?thesis
    by (intro bexI[of _ pool]) auto
qed

text \<open>
  C7. For either side, a candidate with the pair of the request whose quotes of the unit
  amount and of the requested amounts all succeed (and, for BUY, consume the negated
  amount) has a price point in the result, and for the pool behind a price point the
  unit output is the quote of one whole amount token (the destination token for BUY,
  the source token for SELL), and the \<open>i\<close>-th price and the \<open>i\<close>-th gas cost are those
  of the quote of the \<open>i\<close>-th requested amount.
\<close>

theorem getPricesVolume_positional:
  assumes "getInitializedPools env pools src dest limitPools = (warnings, candidates)"
  shows "(\<forall>pp\<in>set (snd (getPricesVolume env pools src dest amounts side blk limitPools)).
          \<exists>pool\<in>set candidates.
           snd (quotePool env (quoteContext env src dest side) amounts blk pool) = Some pp \<and>
           poolIdentifier pp = string_id env (key pool) \<and>
           (\<exists>uq. quote env pool
                    (if side = BUY then - getBigIntPow (decimals dest) else getBigIntPow (decimals src))
                    (convertParaSwapToEkubo env (address (if side = BUY then dest else src))) blk = Inr uq \<and>
                 unit pp = calculatedAmount uq) \<and>
           length (prices pp) = length amounts \<and>
           length (gasCost pp) = length amounts \<and>
           (\<forall>i<length amounts.
              \<exists>q. quote env pool (if side = BUY then - (amounts ! i) else amounts ! i)
                     (convertParaSwapToEkubo env (address (if side = BUY then dest else src))) blk = Inr q \<and>
                  prices pp ! i = calculatedAmount q \<and>
                  gasCost pp ! i = gasConsumed q)) \<and>
         (\<forall>pool\<in>set candidates. \<forall>uq qs.
            (token0 (key pool), token1 (key pool)) = sortAndConvertTokens env src dest \<and>
            list_all2
              (\<lambda>a q. quote env pool (if side = BUY then - a else a)
                       (convertParaSwapToEkubo env (address (if side = BUY then dest else src)))
                       blk = Inr q \<and>
                     (side = BUY \<longrightarrow> consumedAmount q = - a))
              (getBigIntPow (decimals (if side = BUY then dest else src)) # amounts)
              (uq # qs) \<longrightarrow>
            (\<exists>pp\<in>set (snd (getPricesVolume env pools src dest amounts side blk limitPools)).
               snd (quotePool env (quoteContext env src dest side) amounts blk pool) = Some pp \<and>
               poolIdentifier pp = string_id env (key pool) \<and>
               poolKey (data pp) = key pool \<and>
               unit pp = calculatedAmount uq \<and>
               prices pp = map calculatedAmount qs \<and>
               gasCost pp = map gasConsumed qs))"
proof (intro conjI ballI allI impI)
  fix pp
  assume "pp \<in> set (snd (getPricesVolume env pools src dest amounts side blk limitPools))"
  from getPricesVolume_point_positional[OF assms this]
  show "\<exists>pool\<in>set candidates.
           snd (quotePool env (quoteContext env src dest side) amounts blk pool) = Some pp \<and>
           poolIdentifier pp = string_id env (key pool) \<and>
           (\<exists>uq. quote env pool
                    (if side = BUY then - getBigIntPow (decimals dest) else getBigIntPow (decimals src))
                    (convertParaSwapToEkubo env (address (if side = BUY then dest else src))) blk = Inr uq \<and>
                 unit pp = calculatedAmount uq) \<and>
           length (prices pp) = length amounts \<and>
           length (gasCost pp) = length amounts \<and>
           (\<forall>i<length amounts.
              \<exists>q. quote env pool (if side = BUY then - (amounts ! i) else amounts ! i)
                     (convertParaSwapToEkubo env (address (if side = BUY then dest else src))) blk = Inr q \<and>
                  prices pp ! i = calculatedAmount q \<and>
                  gasCost pp ! i = gasConsumed q)" .
next
  let ?ctx = "quoteContext env src dest side"
  fix pool uq qs
  assume m: "pool \<in> set candidates"
    and "(token0 (key pool), token1 (key pool)) = sortAndConvertTokens env src dest \<and>
            list_all2
              (\<lambda>a q. quote env pool (if side = BUY then - a else a)
                       (convertParaSwapToEkubo env (address (if side = BUY then dest else src)))
                       blk = Inr q \<and>
                     (side = BUY \<longrightarrow> consumedAmount q = - a))
              (getBigIntPow (decimals (if side = BUY then dest else src)) # amounts)
              (uq # qs)"
  then have p: "(token0 (key pool), token1 (key pool)) = sortAndConvertTokens env src dest"
    and l: "list_all2
              (\<lambda>a q. quote env pool (if side = BUY then - a else a)
                       (convertParaSwapToEkubo env (address (if side = BUY then dest else src)))
                       blk = Inr q \<and>
                     (side = BUY \<longrightarrow> consumedAmount q = - a))
              (getBigIntPow (decimals (if side = BUY then dest else src)) # amounts)
              (uq # qs)"
    by simp_all
  have ctx: "amountTokenAddress ?ctx = convertParaSwapToEkubo env (address (if side = BUY then dest else src))"
    "unitAmount ?ctx = getBigIntPow (decimals (if side = BUY then dest else src))"
    "isExactOut ?ctx = (side = BUY)"
    by (simp_all add: quoteContext_fields amountToken_def)
  have inp: "inputAmount ?ctx a = (if side = BUY then - a else a)" for a
    by (simp add: quoteContext_fields inputAmount_def)
  have same: "(\<lambda>a q. quote env pool (inputAmount ?ctx a) (amountTokenAddress ?ctx) blk = Inr q \<and>
                     (isExactOut ?ctx \<longrightarrow> consumedAmount q = inputAmount ?ctx a))
            = (\<lambda>a q. quote env pool (if side = BUY then - a else a)
                       (convertParaSwapToEkubo env (address (if side = BUY then dest else src)))
                       blk = Inr q \<and>
                     (side = BUY \<longrightarrow> consumedAmount q = - a))"
    by (intro ext) (simp only: ctx inp, auto)
  from l have l': "list_all2
              (\<lambda>a q. quote env pool (inputAmount ?ctx a) (amountTokenAddress ?ctx) blk = Inr q \<and>
                     (isExactOut ?ctx \<longrightarrow> consumedAmount q = inputAmount ?ctx a))
              (unitAmount ?ctx # amounts) (uq # qs)"
    by (simp only: same ctx(2))
  note r = getPricesVolume_complete[OF assms m p l']
  let ?pp = "\<lparr>prices = map calculatedAmount qs,
                unit = calculatedAmount uq,
                data = \<lparr>poolKey = key pool,
                        isToken1 = (amountTokenAddress ?ctx
                                      = ctx_token1 ?ctx),
                        skipAheadMap =
                          foldl (\<lambda>m (a, q). AList.update a (skipAhead q) m) []
                            (zip (unitAmount ?ctx # amounts)
                                 (uq # qs))\<rparr>,
                poolIdentifier = string_id env (key pool),
                exchange = dexKey env,
                gasCost = map gasConsumed qs\<rparr>"
  from r have q: "snd (quotePool env ?ctx amounts blk pool) = Some ?pp"
    by simp
  from r have mem: "?pp \<in> set (snd (getPricesVolume env pools src dest amounts side blk limitPools))"
    by (rule conjunct2)
  show "\<exists>pp\<in>set (snd (getPricesVolume env pools src dest amounts side blk limitPools)).
               snd (quotePool env ?ctx amounts blk pool) = Some pp \<and>
               poolIdentifier pp = string_id env (key pool) \<and>
               poolKey (data pp) = key pool \<and>
               unit pp = calculatedAmount uq \<and>
               prices pp = map calculatedAmount qs \<and>
               gasCost pp = map gasConsumed qs"
    by (rule bexI[OF _ mem]) (simp add: q)
qed

theorem getPricesVolume_positional_witness:
  "getInitializedPools demo_env demo_pools demo_src demo_dest None
     = ([], [demo_pool 1 2 1 100, demo_pool 1 2 2 5, demo_pool 1 2 3 (- 1)]) \<and>
   \<lparr>prices = [6, 40], unit = 20,
     data = \<lparr>poolKey = demo_key 1 2 1, isToken1 = True,
             skipAheadMap = [(10, 0), (3, 0), (20, 0)]\<rparr>,
     poolIdentifier = ''ttf'', exchange = ''Ekubo'', gasCost = [7, 7]\<rparr>
     \<in> set (snd (getPricesVolume demo_env demo_pools demo_src demo_dest [3, 20] BUY 7 None)) \<and>
   (\<exists>pool\<in>set [demo_pool 1 2 1 100, demo_pool 1 2 2 5, demo_pool 1 2 3 (- 1)].
      ''ttf'' = string_id demo_env (key pool) \<and>
      (\<exists>uq. quote demo_env pool (- getBigIntPow (decimals demo_dest))
               (convertParaSwapToEkubo demo_env (address demo_dest)) 7 = Inr uq \<and>
            20 = calculatedAmount uq) \<and>
      (\<exists>q. quote demo_env pool (- 3) (convertParaSwapToEkubo demo_env (address demo_dest)) 7 = Inr q \<and>
           6 = calculatedAmount q \<and> 7 = gasConsumed q) \<and>
      (\<exists>q. quote demo_env pool (- 20) (convertParaSwapToEkubo demo_env (address demo_dest)) 7 = Inr q \<and>
           40 = calculatedAmount q \<and> 7 = gasConsumed q)) \<and>
   getInitializedPools demo_env demo_pools demo_dest demo_src None
     = ([], [demo_pool 1 2 1 100, demo_pool 1 2 2 5, demo_pool 1 2 3 (- 1)]) \<and>
   list_all2
     (\<lambda>a q. quote demo_env (demo_pool 1 2 2 5) (if SELL = BUY then - a else a)
              (convertParaSwapToEkubo demo_env (address (if SELL = BUY then demo_src else demo_dest)))
              7 = Inr q \<and>
            (SELL = BUY \<longrightarrow> consumedAmount q = - a))
     (getBigIntPow (decimals (if SELL = BUY then demo_src else demo_dest)) # [3, 20, 4])
     (\<lparr>consumedAmount = 10, calculatedAmount = 5, gasConsumed = 9, skipAhead = 1\<rparr> #
      [\<lparr>consumedAmount = 3, calculatedAmount = 3, gasConsumed = 9, skipAhead = 1\<rparr>,
       \<lparr>consumedAmount = 20, calculatedAmount = 5, gasConsumed = 9, skipAhead = 1\<rparr>,
       \<lparr>consumedAmount = 4, calculatedAmount = 4, gasConsumed = 9, skipAhead = 1\<rparr>]) \<and>
   (\<exists>pp\<in>set (snd (getPricesVolume demo_env demo_pools demo_dest demo_src [3, 20, 4] SELL 7 None)).
      poolIdentifier pp = string_id demo_env (key (demo_pool 1 2 2 5)) \<and>
      unit pp = 5 \<and> prices pp = [3, 5, 4] \<and> gasCost pp = [9, 9, 9])"
proof -
  let ?cands = "[demo_pool 1 2 1 100, demo_pool 1 2 2 5, demo_pool 1 2 3 (- 1)]"
  let ?pp = "\<lparr>prices = [6, 40], unit = 20,
         data = \<lparr>poolKey = demo_key 1 2 1, isToken1 = True,
                 skipAheadMap = [(10, 0), (3, 0), (20, 0)]\<rparr>,
         poolIdentifier = ''ttf'', exchange = ''Ekubo'', gasCost = [7, 7]\<rparr>"
  let ?uq = "\<lparr>consumedAmount = 10, calculatedAmount = 5, gasConsumed = 9, skipAhead = 1\<rparr>"
  let ?qs = "[\<lparr>consumedAmount = 3, calculatedAmount = 3, gasConsumed = 9, skipAhead = 1\<rparr>,
       \<lparr>consumedAmount = 20, calculatedAmount = 5, gasConsumed = 9, skipAhead = 1\<rparr>,
       \<lparr>consumedAmount = 4, calculatedAmount = 4, gasConsumed = 9, skipAhead = 1\<rparr>]"
  have h: "getInitializedPools demo_env demo_pools demo_src demo_dest None = ([], ?cands)"
    by (simp add: quoting_defs demo_defs)
  have m: "?pp \<in> set (snd (getPricesVolume demo_env demo_pools demo_src demo_dest [3, 20] BUY 7 None))"
    by (simp add: quoting_defs demo_defs)
  note t = getPricesVolume_positional[OF h, where amounts = "[3, 20]" and blk = 7 and side = BUY]
  from bspec[OF t[THEN conjunct1] m]
  obtain pool where p: "pool \<in> set ?cands"
    "poolIdentifier ?pp = string_id demo_env (key pool)"
    "\<exists>uq. quote demo_env pool
             (if BUY = BUY then - getBigIntPow (decimals demo_dest) else getBigIntPow (decimals demo_src))
             (convertParaSwapToEkubo demo_env (address (if BUY = BUY then demo_dest else demo_src))) 7 = Inr uq \<and>
          unit ?pp = calculatedAmount uq"
    "\<forall>i<length [3, 20::int].
        \<exists>q. quote demo_env pool (if BUY = BUY then - ([3, 20] ! i) else [3, 20] ! i)
               (convertParaSwapToEkubo demo_env (address (if BUY = BUY then demo_dest else demo_src))) 7 = Inr q \<and>
            prices ?pp ! i = calculatedAmount q \<and>
            gasCost ?pp ! i = gasConsumed q"
    by blast
  from p(4)[rule_format, of 0] p(4)[rule_format, of 1] p(1,2,3)
  have buy: "\<exists>pool\<in>set ?cands.
      ''ttf'' = string_id demo_env (key pool) \<and>
      (\<exists>uq. quote demo_env pool (- getBigIntPow (decimals demo_dest))
               (convertParaSwapToEkubo demo_env (address demo_dest)) 7 = Inr uq \<and>
            20 = calculatedAmount uq) \<and>
      (\<exists>q. quote demo_env pool (- 3) (convertParaSwapToEkubo demo_env (address demo_dest)) 7 = Inr q \<and>
           6 = calculatedAmount q \<and> 7 = gasConsumed q) \<and>
      (\<exists>q. quote demo_env pool (- 20) (convertParaSwapToEkubo demo_env (address demo_dest)) 7 = Inr q \<and>
           40 = calculatedAmount q \<and> 7 = gasConsumed q)"
    by (intro bexI[of _ pool]) simp_all
  have h2: "getInitializedPools demo_env demo_pools demo_dest demo_src None = ([], ?cands)"
    by (simp add: quoting_defs demo_defs)
  have gm: "demo_pool 1 2 2 5 \<in> set ?cands" by simp
  have gp: "(token0 (key (demo_pool 1 2 2 5)), token1 (key (demo_pool 1 2 2 5)))
              = sortAndConvertTokens demo_env demo_dest demo_src"
    by (simp add: quoting_defs demo_defs)
  have gl: "list_all2
     (\<lambda>a q. quote demo_env (demo_pool 1 2 2 5) (if SELL = BUY then - a else a)
              (convertParaSwapToEkubo demo_env (address (if SELL = BUY then demo_src else demo_dest)))
              7 = Inr q \<and>
            (SELL = BUY \<longrightarrow> consumedAmount q = - a))
     (getBigIntPow (decimals (if SELL = BUY then demo_src else demo_dest)) # [3, 20, 4])
     (?uq # ?qs)"
    by (simp add: quoting_defs demo_defs)
  note t2 = getPricesVolume_positional
              [OF h2, where amounts = "[3, 20, 4]" and blk = 7 and side = SELL]
  note sell0 = t2[THEN conjunct2, THEN bspec, OF gm, rule_format, OF conjI, OF gp gl]
  from sell0 have sell: "\<exists>pp\<in>set (snd (getPricesVolume demo_env demo_pools demo_dest demo_src [3, 20, 4] SELL 7 None)).
      poolIdentifier pp = string_id demo_env (key (demo_pool 1 2 2 5)) \<and>
      unit pp = 5 \<and> prices pp = [3, 5, 4] \<and> gasCost pp = [9, 9, 9]"
    by auto
  from h m buy h2 gl sell show ?thesis
    by (intro conjI)
qed

section \<open>Properties of discovery and batch initialisation\<close>

lemma initializeItems_step:
  "initializeItems env pk blk bs i (d # ds) pools =
     (if bs + i < length pk \<and>
         (extension (config (pk ! (bs + i))) = 0 \<or>
          extension (config (pk ! (bs + i))) = config_oracle env)
      then
        (fst (initializeItems env pk blk bs (Suc i) ds
               (AList.update (string_id env (pk ! (bs + i)))
                  \<lparr>key = pk ! (bs + i),
                   pool_class = (if extension (config (pk ! (bs + i))) = 0
                                 then BasePool else OraclePool),
                   pool_state = fromQuoter env d, stateBlock = blk\<rparr> pools)),
         Inr (string_id env (pk ! (bs + i))) #
         snd (initializeItems env pk blk bs (Suc i) ds
               (AList.update (string_id env (pk ! (bs + i)))
                  \<lparr>key = pk ! (bs + i),
                   pool_class = (if extension (config (pk ! (bs + i))) = 0
                                 then BasePool else OraclePool),
                   pool_state = fromQuoter env d, stateBlock = blk\<rparr> pools)))
      else
        (fst (initializeItems env pk blk bs (Suc i) ds pools),
         Inl (if bs + i < length pk
              then UnknownPoolExtension (extension (config (pk ! (bs + i))))
              else TypeError) #
         snd (initializeItems env pk blk bs (Suc i) ds pools)))"
  by (simp add: Let_def split: prod.splits)

lemma initializeItems_dom_mono:
  "fst ` set pools \<subseteq> fst ` set (fst (initializeItems env pk blk bs i ds pools))"
proof (induction ds arbitrary: i pools)
  case Nil
  then show ?case by simp
next
  case (Cons d ds)
  have "fst ` set pools \<subseteq> fst ` set (AList.update k v pools)" for k v
    by (auto simp: dom_update)
  with Cons.IH show ?case
    by (simp add: initializeItems_step del: initializeItems.simps(2)) (meson order_trans)
qed

lemma initializeItems_preserves:
  "poolId \<notin> string_id env ` set pk \<Longrightarrow>
   map_of (fst (initializeItems env pk blk bs i ds pools)) poolId = map_of pools poolId"
proof (induction ds arbitrary: i pools)
  case Nil
  then show ?case by simp
next
  case (Cons d ds)
  show ?case
  proof (cases "bs + i < length pk")
    case True
    then have "pk ! (bs + i) \<in> set pk" by simp
    with Cons.prems have ne: "string_id env (pk ! (bs + i)) \<noteq> poolId" by auto
    show ?thesis
      using True ne Cons.IH[OF Cons.prems]
      by (simp add: initializeItems_step update_conv' del: initializeItems.simps(2))
  next
    case False
    then show ?thesis
      using Cons.IH[OF Cons.prems]
      by (simp add: initializeItems_step del: initializeItems.simps(2))
  qed
qed

lemma initializeItems_distinct:
  "distinct (map fst pools) \<Longrightarrow>
   distinct (map fst (fst (initializeItems env pk blk bs i ds pools)))"
proof (induction ds arbitrary: i pools)
  case Nil
  then show ?case by simp
next
  case (Cons d ds)
  then show ?case
    by (simp add: initializeItems_step distinct_update del: initializeItems.simps(2))
qed



lemma initializeBatch_unfold:
  "initializeBatch env pk blk maxTime bs batch pools =
     (if deadlineFirst env maxTime batch blk
      then (pools, Rejected batch (Error ''Timeout''),
            [\<lparr>fetch_poolKeys = pk, fetch_blockNumber = blk,
              fetch_batchStart = bs, fetch_batch = batch\<rparr>])
      else
        (case getQuoteData env batch MIN_TICK_SPACINGS_PER_POOL blk of
           Inl err \<Rightarrow> (pools, Rejected batch err, [])
         | Inr fetchedData \<Rightarrow>
             (fst (initializeItems env pk blk bs 0 fetchedData pools),
              (case promise_all (snd (initializeItems env pk blk bs 0 fetchedData pools)) of
                 Inl err \<Rightarrow> Rejected batch err
               | Inr ids \<Rightarrow> Fulfilled ids), [])))"
  by (simp add: initializeBatch_def fetchBatch_def Let_def split: prod.splits sum.splits)

lemma initializeBatch_dom_mono:
  "fst ` set pools \<subseteq> fst ` set (fst (initializeBatch env pk blk maxTime bs batch pools))"
  using initializeItems_dom_mono[of pools env pk blk bs 0]
  by (simp add: initializeBatch_unfold split: sum.splits)

lemma initializeBatch_preserves:
  "poolId \<notin> string_id env ` set pk \<Longrightarrow>
   map_of (fst (initializeBatch env pk blk maxTime bs batch pools)) poolId = map_of pools poolId"
  using initializeItems_preserves[of poolId env pk blk bs 0 _ pools]
  by (simp add: initializeBatch_unfold split: sum.splits)

lemma initializeBatch_distinct:
  "distinct (map fst pools) \<Longrightarrow>
   distinct (map fst (fst (initializeBatch env pk blk maxTime bs batch pools)))"
  using initializeItems_distinct[of pools env pk blk bs 0]
  by (simp add: initializeBatch_unfold split: sum.splits)





lemma initializePools_from_unfold:
  "initializePools_from env pk blk mt bs pools promises pending =
     (if bs < length pk
      then initializePools_from env pk blk mt (bs + MAX_POOL_BATCH_COUNT)
             (fst (initializeBatch env pk blk mt bs (take MAX_POOL_BATCH_COUNT (drop bs pk)) pools))
             (promises @ [fst (snd (initializeBatch env pk blk mt bs
                                      (take MAX_POOL_BATCH_COUNT (drop bs pk)) pools))])
             (pending @ snd (snd (initializeBatch env pk blk mt bs
                                    (take MAX_POOL_BATCH_COUNT (drop bs pk)) pools)))
      else (pools, promises, pending))"
  by (subst initializePools_from.simps) (simp add: Let_def split: prod.splits)

lemma initializePools_from_invariant:
  "Q pools \<Longrightarrow>
   (\<And>b batch pl. Q pl \<Longrightarrow> Q (fst (initializeBatch env pk blk mt b batch pl))) \<Longrightarrow>
   Q (fst (initializePools_from env pk blk mt bs pools promises pending))"
proof (induction env pk blk mt bs pools promises pending rule: initializePools_from.induct)
  case (1 env pk blk mt bs pools promises pending)
  show ?case
  proof (cases "bs < length pk")
    case True
    let ?batch = "take MAX_POOL_BATCH_COUNT (drop bs pk)"
    let ?b = "initializeBatch env pk blk mt bs ?batch pools"
    have q: "Q (fst ?b)" using "1.prems" by simp
    have "Q (fst (initializePools_from env pk blk mt (bs + MAX_POOL_BATCH_COUNT) (fst ?b)
                   (promises @ [fst (snd ?b)]) (pending @ snd (snd ?b))))"
      by (rule "1.IH"[OF True refl, of "fst ?b" "snd ?b" "fst (snd ?b)" "snd (snd ?b)"])
         (simp_all add: q "1.prems"(2))
    then show ?thesis
      using True by (subst initializePools_from_unfold) simp
  next
    case False
    then show ?thesis
      using "1.prems" by (subst initializePools_from_unfold) simp
  qed
qed

lemma initializePools_from_dom_mono:
  fixes pools :: "'s registry"
  shows "fst ` set pools
           \<subseteq> fst ` set (fst (initializePools_from env pk blk mt bs pools promises pending))"
proof (rule initializePools_from_invariant
              [where Q = "\<lambda>pl :: 's registry. fst ` set pools \<subseteq> fst ` set pl"])
  show "fst ` set pools \<subseteq> fst ` set pools" by simp
next
  fix b batch and pl :: "'s registry"
  assume "fst ` set pools \<subseteq> fst ` set pl"
  with initializeBatch_dom_mono[of pl env pk blk mt b batch]
  show "fst ` set pools \<subseteq> fst ` set (fst (initializeBatch env pk blk mt b batch pl))"
    by (rule order_trans[rotated])
qed

lemma initializePools_from_preserves:
  fixes pools :: "'s registry"
  assumes "poolId \<notin> string_id env ` set pk"
  shows "map_of (fst (initializePools_from env pk blk mt bs pools promises pending)) poolId
           = map_of pools poolId"
proof (rule initializePools_from_invariant
              [where Q = "\<lambda>pl :: 's registry. map_of pl poolId = map_of pools poolId"])
  show "map_of pools poolId = map_of pools poolId" by simp
next
  fix b batch and pl :: "'s registry"
  assume "map_of pl poolId = map_of pools poolId"
  with initializeBatch_preserves[OF assms, of blk mt b batch pl]
  show "map_of (fst (initializeBatch env pk blk mt b batch pl)) poolId = map_of pools poolId"
    by simp
qed

lemma initializePools_from_distinct:
  fixes pools :: "'s registry"
  assumes "distinct (map fst pools)"
  shows "distinct (map fst (fst (initializePools_from env pk blk mt bs pools promises pending)))"
  by (rule initializePools_from_invariant
             [where Q = "\<lambda>pl :: 's registry. distinct (map fst pl)"])
     (simp_all add: assms initializeBatch_distinct)

lemma ceil_div_step:
  fixes c :: nat
  assumes "0 < c" and "bs < n"
  shows "(n - bs + (c - 1)) div c = Suc ((n - (bs + c) + (c - 1)) div c)"
proof (cases "bs + c \<le> n")
  case True
  define x where "x = n - (bs + c) + (c - 1)"
  from True have "n - bs + (c - 1) = x + c"
    unfolding x_def by linarith
  moreover have "(x + c) div c = Suc (x div c)"
    using assms(1) by (simp add: div_add_self2)
  ultimately show ?thesis
    unfolding x_def by (simp only:)
next
  case False
  define y where "y = n - bs + (c - 1)"
  from False assms have "c * 1 \<le> y" "y < c * Suc 1"
    unfolding y_def by simp_all
  then have "y div c = 1"
    by (rule div_nat_eqI)
  moreover from False have "n - (bs + c) = 0"
    by simp
  moreover from assms(1) have "(0 + (c - 1)) div c = 0"
    by simp
  ultimately show ?thesis
    unfolding y_def by (simp only:)
qed


lemma MAX_POOL_BATCH_COUNT_pos: "0 < MAX_POOL_BATCH_COUNT"
  by (simp add: MAX_POOL_BATCH_COUNT_def)

lemma batch_count_step:
  "bs < n \<Longrightarrow> (n - bs + (MAX_POOL_BATCH_COUNT - 1)) div MAX_POOL_BATCH_COUNT
     = Suc ((n - (bs + MAX_POOL_BATCH_COUNT) + (MAX_POOL_BATCH_COUNT - 1)) div MAX_POOL_BATCH_COUNT)"
  by (rule ceil_div_step[OF MAX_POOL_BATCH_COUNT_pos])

lemma initializePools_from_results:
  "initializePools_from env pk blk mt bs pools promises pending = (pools', promises', pending') \<Longrightarrow>
   (\<And>b pl. b < length pk \<Longrightarrow>
      fst ` set (fst (initializeBatch env pk blk mt b (take MAX_POOL_BATCH_COUNT (drop b pk)) pl))
        \<subseteq> fst ` set pools' \<Longrightarrow>
      P b (fst (snd (initializeBatch env pk blk mt b
                       (take MAX_POOL_BATCH_COUNT (drop b pk)) pl)))) \<Longrightarrow>
   length promises' = length promises +
      (length pk - bs + (MAX_POOL_BATCH_COUNT - 1)) div MAX_POOL_BATCH_COUNT \<and>
   take (length promises) promises' = promises \<and>
   (\<forall>k. length promises + k < length promises' \<longrightarrow>
      bs + k * MAX_POOL_BATCH_COUNT < length pk \<and>
      P (bs + k * MAX_POOL_BATCH_COUNT) (promises' ! (length promises + k)))"
proof (induction env pk blk mt bs pools promises pending rule: initializePools_from.induct)
  case (1 env pk blk mt bs pools promises pending)
  show ?case
  proof (cases "bs < length pk")
    case False
    with "1.prems"(1) have "pools' = pools" "promises' = promises"
      by (simp_all add: initializePools_from_unfold[of env pk blk mt bs])
    with False show ?thesis
      by (simp add: MAX_POOL_BATCH_COUNT_def)
  next
    case True
    let ?batch = "take MAX_POOL_BATCH_COUNT (drop bs pk)"
    let ?b = "initializeBatch env pk blk mt bs ?batch pools"
    let ?r = "fst (snd ?b)"
    from True "1.prems"(1)
    have rest: "initializePools_from env pk blk mt (bs + MAX_POOL_BATCH_COUNT) (fst ?b)
                  (promises @ [?r]) (pending @ snd (snd ?b)) = (pools', promises', pending')"
      by (simp add: initializePools_from_unfold[of env pk blk mt bs])
    have ih: "length promises' = length (promises @ [?r]) +
        (length pk - (bs + MAX_POOL_BATCH_COUNT) + (MAX_POOL_BATCH_COUNT - 1)) div MAX_POOL_BATCH_COUNT \<and>
      take (length (promises @ [?r])) promises' = promises @ [?r] \<and>
      (\<forall>k. length (promises @ [?r]) + k < length promises' \<longrightarrow>
         bs + MAX_POOL_BATCH_COUNT + k * MAX_POOL_BATCH_COUNT < length pk \<and>
         P (bs + MAX_POOL_BATCH_COUNT + k * MAX_POOL_BATCH_COUNT)
           (promises' ! (length (promises @ [?r]) + k)))"
      by (rule "1.IH"[OF True refl, of "fst ?b" "snd ?b" ?r "snd (snd ?b)"])
         (simp_all add: rest "1.prems"(2))
    from ih have l0: "length promises' = length (promises @ [?r]) +
        (length pk - (bs + MAX_POOL_BATCH_COUNT) + (MAX_POOL_BATCH_COUNT - 1)) div MAX_POOL_BATCH_COUNT"
      by (rule conjunct1)
    have len: "length promises' = length promises +
        (length pk - bs + (MAX_POOL_BATCH_COUNT - 1)) div MAX_POOL_BATCH_COUNT"
      unfolding l0 batch_count_step[OF True] by simp
    from ih have tk: "take (Suc (length promises)) promises' = promises @ [?r]"
      by simp
    have "take (length promises) (take (Suc (length promises)) promises') = promises"
      by (simp only: tk) simp
    then have pre: "take (length promises) promises' = promises"
      by (simp add: min_def)
    have "take (Suc (length promises)) promises' ! length promises = ?r"
      by (simp only: tk) simp
    then have here: "promises' ! length promises = ?r"
      by simp
    from rest have "fst ` set (fst ?b) \<subseteq> fst ` set pools'"
      using initializePools_from_dom_mono[of "fst ?b" env pk blk mt "bs + MAX_POOL_BATCH_COUNT"
                                            "promises @ [?r]" "pending @ snd (snd ?b)"]
      by simp
    from "1.prems"(2)[OF True this] have p0: "P bs ?r" .
    have nth: "bs + k * MAX_POOL_BATCH_COUNT < length pk \<and>
      P (bs + k * MAX_POOL_BATCH_COUNT) (promises' ! (length promises + k))"
      if "length promises + k < length promises'" for k
    proof (cases k)
      case 0
      with True p0 here show ?thesis by simp
    next
      case (Suc j)
      with that have "length (promises @ [?r]) + j < length promises'" by simp
      with ih have A: "bs + MAX_POOL_BATCH_COUNT + j * MAX_POOL_BATCH_COUNT < length pk \<and>
         P (bs + MAX_POOL_BATCH_COUNT + j * MAX_POOL_BATCH_COUNT)
           (promises' ! (length (promises @ [?r]) + j))"
        by blast
      have e1: "bs + MAX_POOL_BATCH_COUNT + j * MAX_POOL_BATCH_COUNT = bs + k * MAX_POOL_BATCH_COUNT"
        using Suc by simp
      have e2: "length (promises @ [?r]) + j = length promises + k"
        using Suc by simp
      from A show ?thesis unfolding e1 e2 .
    qed
    show ?thesis
    proof (intro conjI allI impI)
      show "length promises' = length promises +
        (length pk - bs + (MAX_POOL_BATCH_COUNT - 1)) div MAX_POOL_BATCH_COUNT"
        by (rule len)
      show "take (length promises) promises' = promises"
        by (rule pre)
    next
      fix k
      assume "length promises + k < length promises'"
      from nth[OF this] show "bs + k * MAX_POOL_BATCH_COUNT < length pk"
        and "P (bs + k * MAX_POOL_BATCH_COUNT) (promises' ! (length promises + k))"
        by simp_all
    qed
  qed
qed


lemma initializeItems_ids:
  "Inr poolId \<in> set (snd (initializeItems env pk blk bs i ds pools)) \<Longrightarrow>
   poolId \<in> string_id env ` set pk"
proof (induction ds arbitrary: i pools)
  case Nil
  then show ?case by simp
next
  case (Cons d ds)
  then show ?case
    by (auto simp: initializeItems_step simp del: initializeItems.simps(2) split: if_splits)
qed

lemma promise_all_ids:
  "promise_all rs = Inr ids \<Longrightarrow> poolId \<in> set ids \<Longrightarrow> Inr poolId \<in> set rs"
proof (induction rs arbitrary: ids rule: promise_all.induct)
  case 1
  then show ?case by simp
next
  case (2 e rs)
  then show ?case by simp
next
  case (3 v rs)
  then show ?case by (auto split: sum.splits)
qed

lemma initializeBatch_ids:
  "fst (snd (initializeBatch env pk blk mt bs batch pools)) = Fulfilled ids \<Longrightarrow>
   set ids \<subseteq> string_id env ` set pk"
  by (auto simp: initializeBatch_unfold split: if_splits sum.splits
           dest!: promise_all_ids initializeItems_ids)

lemma initializePools_ids:
  assumes "initializePools env pools pk blk mt = (pools', promises, pending)"
    and "Fulfilled ids \<in> set promises"
  shows "set ids \<subseteq> string_id env ` set pk"
proof -
  let ?P = "\<lambda>(b::nat) r. \<forall>ids. r = Fulfilled ids \<longrightarrow> set ids \<subseteq> string_id env ` set pk"
  from assms(1) have run: "initializePools_from env pk blk mt 0 pools [] [] = (pools', promises, pending)"
    by (simp add: initializePools_def)
  have "\<forall>k. length ([]::batch_result list) + k < length promises \<longrightarrow>
          0 + k * MAX_POOL_BATCH_COUNT < length pk \<and>
          ?P (0 + k * MAX_POOL_BATCH_COUNT) (promises ! (length ([]::batch_result list) + k))"
    using initializePools_from_results[OF run, where P = ?P]
    by (meson initializeBatch_ids)
  then have all: "\<forall>k<length promises. \<forall>ids. promises ! k = Fulfilled ids \<longrightarrow>
                    set ids \<subseteq> string_id env ` set pk"
    by simp
  from assms(2) obtain k where "k < length promises" "promises ! k = Fulfilled ids"
    by (auto simp: in_set_conv_nth)
  with all show ?thesis by blast
qed



lemma initializePools_preserves:
  fixes pools :: "'s registry"
  assumes "map_of pools poolId = Some pool"
  shows "map_of (fst (initializePools env pools
                        (filter (\<lambda>k. \<not> has pools (string_id env k)) keys) blk mt)) poolId
           = Some pool"
proof -
  from assms have "has pools poolId"
    by (simp add: has_def)
  then have "poolId \<notin> string_id env ` set (filter (\<lambda>k. \<not> has pools (string_id env k)) keys)"
    by auto
  from initializePools_from_preserves[OF this] assms show ?thesis
    by (simp add: initializePools_def)
qed

lemma initializePools_distinct:
  fixes pools :: "'s registry"
  shows "distinct (map fst pools) \<Longrightarrow>
         distinct (map fst (fst (initializePools env pools keys blk mt)))"
  by (simp add: initializePools_def initializePools_from_distinct)

lemma updatePoolMap_registry:
  "fst (updatePoolMap env pools res blk) =
     (case fetchAllPoolKeys env res of
        Inl err \<Rightarrow> pools
      | Inr keys \<Rightarrow>
          fst (initializePools env pools
                 (filter (\<lambda>k. \<not> has pools (string_id env k)) keys) blk None))"
  by (simp add: updatePoolMap_def Let_def split: sum.splits prod.splits)

lemma fetchPoolsByPair_registry:
  "fst (fetchPoolsByPair env pools res tokenA tokenB blk maxTime) =
     fst (initializePools env pools
            (filter (\<lambda>k. \<not> has pools (string_id env k))
               (fst (pairPoolKeys env res (fst (sortAndConvertTokens env tokenA tokenB))
                                          (snd (sortAndConvertTokens env tokenA tokenB)))))
            blk (Some ((maxTime - 50) / 2)))"
  by (simp add: fetchPoolsByPair_def Let_def split: prod.splits)

lemma landFetch_unfold:
  "landFetch env f later =
     (case getQuoteData env (fetch_batch f) MIN_TICK_SPACINGS_PER_POOL (fetch_blockNumber f) of
        Inl err \<Rightarrow> later
      | Inr fetchedData \<Rightarrow>
          fst (initializeItems env (fetch_poolKeys f) (fetch_blockNumber f) (fetch_batchStart f)
                 0 fetchedData later))"
  by (simp add: landFetch_def fetchBatch_def split: sum.splits prod.splits)

lemma landFetch_preserves:
  "poolId \<notin> string_id env ` set (fetch_poolKeys f) \<Longrightarrow>
   map_of (landFetch env f later) poolId = map_of later poolId"
  using initializeItems_preserves
          [of poolId env "fetch_poolKeys f" "fetch_blockNumber f" "fetch_batchStart f" 0 _ later]
  by (simp add: landFetch_unfold split: sum.splits)

lemma landFetch_distinct:
  "distinct (map fst later) \<Longrightarrow> distinct (map fst (landFetch env f later))"
  using initializeItems_distinct
          [of later env "fetch_poolKeys f" "fetch_blockNumber f" "fetch_batchStart f" 0]
  by (simp add: landFetch_unfold split: sum.splits)

lemma initializeBatch_pending:
  "f \<in> set (snd (snd (initializeBatch env pk blk mt bs batch pools))) \<Longrightarrow>
   fetch_poolKeys f = pk \<and> fetch_blockNumber f = blk \<and> deadlineFirst env mt batch blk"
  by (auto simp: initializeBatch_unfold split: if_splits sum.splits)

lemma initializePools_from_pending:
  "\<forall>f\<in>set pending. R f \<Longrightarrow>
   (\<And>b batch pl f. f \<in> set (snd (snd (initializeBatch env pk blk mt b batch pl))) \<Longrightarrow> R f) \<Longrightarrow>
   \<forall>f\<in>set (snd (snd (initializePools_from env pk blk mt bs pools promises pending))). R f"
proof (induction env pk blk mt bs pools promises pending rule: initializePools_from.induct)
  case (1 env pk blk mt bs pools promises pending)
  show ?case
  proof (cases "bs < length pk")
    case True
    let ?batch = "take MAX_POOL_BATCH_COUNT (drop bs pk)"
    let ?b = "initializeBatch env pk blk mt bs ?batch pools"
    have q: "\<forall>f\<in>set (pending @ snd (snd ?b)). R f"
      using "1.prems" by auto
    have "\<forall>f\<in>set (snd (snd (initializePools_from env pk blk mt (bs + MAX_POOL_BATCH_COUNT)
                                (fst ?b) (promises @ [fst (snd ?b)]) (pending @ snd (snd ?b))))).
            R f"
      by (rule "1.IH"[OF True refl, of "fst ?b" "snd ?b" "fst (snd ?b)" "snd (snd ?b)"])
         (simp_all add: q "1.prems"(2))
    then show ?thesis
      using True by (subst initializePools_from_unfold) simp
  next
    case False
    then show ?thesis
      using "1.prems"(1) by (subst initializePools_from_unfold) simp
  qed
qed

lemma initializePools_pending:
  "f \<in> set (snd (snd (initializePools env pools pk blk mt))) \<Longrightarrow>
   fetch_poolKeys f = pk \<and> fetch_blockNumber f = blk \<and> mt \<noteq> None"
proof -
  assume f: "f \<in> set (snd (snd (initializePools env pools pk blk mt)))"
  have "\<forall>f\<in>set (snd (snd (initializePools_from env pk blk mt 0 pools [] []))).
          fetch_poolKeys f = pk \<and> fetch_blockNumber f = blk \<and> mt \<noteq> None"
  proof (rule initializePools_from_pending)
    show "\<forall>f\<in>set []. fetch_poolKeys f = pk \<and> fetch_blockNumber f = blk \<and> mt \<noteq> None"
      by simp
  next
    fix b batch pl f
    assume "f \<in> set (snd (snd (initializeBatch env pk blk mt b batch pl)))"
    from initializeBatch_pending[OF this]
    show "fetch_poolKeys f = pk \<and> fetch_blockNumber f = blk \<and> mt \<noteq> None"
      by (auto simp: deadlineFirst_def split: option.splits)
  qed
  with f show ?thesis
    by (simp add: initializePools_def)
qed

lemma updatePoolMap_pending:
  "snd (snd (updatePoolMap env pools res blk)) = []"
proof -
  have none: "snd (snd (initializePools env pools keys blk None)) = []" for keys
    using initializePools_pending[of _ env pools keys blk None]
    by (cases "snd (snd (initializePools env pools keys blk None))") auto
  have "snd (snd (updatePoolMap env pools res blk)) =
     (case fetchAllPoolKeys env res of
        Inl err \<Rightarrow> []
      | Inr keys \<Rightarrow>
          snd (snd (initializePools env pools
                      (filter (\<lambda>k. \<not> has pools (string_id env k)) keys) blk None)))"
    by (simp add: updatePoolMap_def Let_def split: sum.splits prod.splits)
  then show ?thesis
    by (simp add: none split: sum.splits)
qed

lemma fetchPoolsByPair_pending:
  "snd (snd (snd (fetchPoolsByPair env pools res tokenA tokenB blk maxTime))) =
     snd (snd (initializePools env pools
            (filter (\<lambda>k. \<not> has pools (string_id env k))
               (fst (pairPoolKeys env res (fst (sortAndConvertTokens env tokenA tokenB))
                                          (snd (sortAndConvertTokens env tokenA tokenB)))))
            blk (Some ((maxTime - 50) / 2))))"
  by (simp add: fetchPoolsByPair_def Let_def split: prod.splits)

lemma tracked_not_uninitialized:
  "map_of pools poolId = Some pool \<Longrightarrow>
   poolId \<notin> string_id env ` set (filter (\<lambda>k. \<not> has pools (string_id env k)) keys)"
  by (auto simp: has_def)

lemma updatePoolMap_run:
  assumes "fetchAllPoolKeys env res = Inr poolKeys"
    and "filter (\<lambda>k. \<not> has pools (string_id env k)) poolKeys = un"
    and "initializePools env pools un blk None = (pools', promises, pending)"
  shows "updatePoolMap env pools res blk = (pools', batchFailures promises, pending)"
  using assms by (simp add: updatePoolMap_def Let_def)

lemma fetchPoolsByPair_run:
  assumes "sortAndConvertTokens env tokenA tokenB = (t0, t1)"
    and "pairPoolKeys env res t0 t1 = (poolKeys, lg)"
    and "filter (\<lambda>k. \<not> has pools (string_id env k)) poolKeys = un"
    and "initializePools env pools un blk (Some ((maxTime - 50) / 2)) = (pools', promises, pending)"
  shows "fetchPoolsByPair env pools res tokenA tokenB blk maxTime =
           (pools', lg @ batchFailures promises,
            map (string_id env) (filter (\<lambda>k. has pools (string_id env k)) poolKeys) @
            concat (map (\<lambda>res. case res of Rejected batch err \<Rightarrow> [] | Fulfilled ids \<Rightarrow> ids)
                      promises),
            pending)"
  using assms by (simp add: fetchPoolsByPair_def Let_def)

text \<open>
  C3 as stated does not hold: there is no insertion that leaves a present identifier
  alone, \<^verbatim>\<open>this.pools.set\<close> replaces. \<^verbatim>\<open>fetchPoolsByPair\<close> at block 7 finds none of
  the five pools of the pair tracked, starts their batch and gives it up at its
  deadline, so that it returns with the registry still empty and the fetch under way. The refresh at
  block 8 then discovers the same five pools and stores them. When the first fetch
  answers at last, it stores its own pool objects under the five identifiers, which are
  present by then: the object the refresh stored under \<open>ttf\<close> is replaced.
\<close>

theorem late_fetch_overwrites_counterexample:
  "fetchPoolsByPair demo_env [] (Inr [demo_info 1, demo_info 2, demo_info 3, demo_info 4, demo_info 5]) demo_src demo_dest 7 200
     = ([],
        [Error_fetching_batch_failed (map (demo_key 1 2) [1, 2, 3, 4, 5]) (Error ''Timeout'')],
        [],
        [\<lparr>fetch_poolKeys = map (demo_key 1 2) [1, 2, 3, 4, 5], fetch_blockNumber = 7,
          fetch_batchStart = 0, fetch_batch = map (demo_key 1 2) [1, 2, 3, 4, 5]\<rparr>]) \<and>
   map_of (fst (updatePoolMap demo_env [] (Inr [demo_info 1, demo_info 2, demo_info 3, demo_info 4, demo_info 5]) 8)) ''ttf''
     = Some \<lparr>key = demo_key 1 2 1, pool_class = BasePool, pool_state = 10, stateBlock = 8\<rparr> \<and>
   map_of (landFetch demo_env
             \<lparr>fetch_poolKeys = map (demo_key 1 2) [1, 2, 3, 4, 5], fetch_blockNumber = 7,
               fetch_batchStart = 0, fetch_batch = map (demo_key 1 2) [1, 2, 3, 4, 5]\<rparr>
             (fst (updatePoolMap demo_env [] (Inr [demo_info 1, demo_info 2, demo_info 3, demo_info 4, demo_info 5]) 8))) ''ttf''
     = Some \<lparr>key = demo_key 1 2 1, pool_class = BasePool, pool_state = 10, stateBlock = 7\<rparr> \<and>
   map_of (landFetch demo_env
             \<lparr>fetch_poolKeys = map (demo_key 1 2) [1, 2, 3, 4, 5], fetch_blockNumber = 7,
               fetch_batchStart = 0, fetch_batch = map (demo_key 1 2) [1, 2, 3, 4, 5]\<rparr>
             (fst (updatePoolMap demo_env [] (Inr [demo_info 1, demo_info 2, demo_info 3, demo_info 4, demo_info 5]) 8))) ''ttf''
     \<noteq> map_of (fst (updatePoolMap demo_env [] (Inr [demo_info 1, demo_info 2, demo_info 3, demo_info 4, demo_info 5]) 8)) ''ttf''"
proof -
  let ?b0 = "map (demo_key 1 2) [1, 2, 3, 4, 5]"
  let ?f = "\<lparr>fetch_poolKeys = ?b0, fetch_blockNumber = 7, fetch_batchStart = 0,
             fetch_batch = ?b0\<rparr>"
  let ?infos = "Inr [demo_info 1, demo_info 2, demo_info 3, demo_info 4, demo_info 5]
                  :: exn + pool_info list"
  let ?reg = "map (\<lambda>f. (string_id demo_env (demo_key 1 2 f),
                  \<lparr>key = demo_key 1 2 f, pool_class = BasePool, pool_state = f * 10,
                    stateBlock = 8\<rparr>)) [1, 2, 3, 4, 5]"
  have keys: "fetchAllPoolKeys demo_env ?infos = Inr ?b0"
    by (simp add: fetchAllPoolKeys_def supportedExtensions_def PoolKey_def PoolConfig_def
                  demo_defs)
  have sort: "sortAndConvertTokens demo_env demo_src demo_dest = (1, 2)"
    by (simp add: sortAndConvertTokens_def demo_defs)
  have pair: "pairPoolKeys demo_env ?infos 1 2 = (?b0, [])"
    by (simp add: pairPoolKeys_def keys) (simp add: demo_key_def)
  have un: "filter (\<lambda>k. \<not> has [] (string_id demo_env k)) ?b0 = ?b0"
    by (simp add: has_def)
  have runA: "initializePools demo_env [] ?b0 7 (Some ((200 - 50) / 2))
                = ([], [Rejected ?b0 (Error ''Timeout'')], [?f])"
    by (simp add: discovery_defs demo_defs)
  have runB: "initializePools demo_env [] ?b0 8 None = (?reg, map (\<lambda>ids. Fulfilled ids)
      [map (string_id demo_env) ?b0], [])"
    by (simp add: discovery_defs demo_defs)
  have a: "fetchPoolsByPair demo_env [] ?infos demo_src demo_dest 7 200
     = ([], [Error_fetching_batch_failed ?b0 (Error ''Timeout'')], [], [?f])"
    unfolding fetchPoolsByPair_run[OF sort pair un runA]
    by (simp add: batchFailures_def has_def)
  have b: "fst (updatePoolMap demo_env [] ?infos 8) = ?reg"
    unfolding updatePoolMap_run[OF keys un runB] by simp
  have c: "map_of (fst (updatePoolMap demo_env [] ?infos 8)) ''ttf''
     = Some \<lparr>key = demo_key 1 2 1, pool_class = BasePool, pool_state = 10, stateBlock = 8\<rparr>"
    unfolding b by (simp add: demo_defs)
  have d: "map_of (landFetch demo_env ?f (fst (updatePoolMap demo_env [] ?infos 8))) ''ttf''
     = Some \<lparr>key = demo_key 1 2 1, pool_class = BasePool, pool_state = 10, stateBlock = 7\<rparr>"
    unfolding b by (simp add: landFetch_unfold MIN_TICK_SPACINGS_PER_POOL_def demo_defs)
  have e: "map_of (landFetch demo_env ?f (fst (updatePoolMap demo_env [] ?infos 8))) ''ttf''
     \<noteq> map_of (fst (updatePoolMap demo_env [] ?infos 8)) ''ttf''"
    unfolding c d by simp
  from a c d e show ?thesis
    by (intro conjI)
qed

text \<open>
  C3, as amended. \<^verbatim>\<open>updatePoolMap\<close> and \<^verbatim>\<open>fetchPoolsByPair\<close> hand to
  \<^verbatim>\<open>initializePools\<close> only keys whose identifier the registry does not hold when the
  pass starts, and every \<^verbatim>\<open>pools.set\<close> of the pass is under the identifier of such a
  key. So an identifier tracked when the pass starts maps to the same pool object when
  the pass returns; \<^verbatim>\<open>updatePoolMap\<close>, which sets no deadline, leaves no fetch behind;
  a fetch that \<^verbatim>\<open>fetchPoolsByPair\<close> leaves behind, and any batch of the pass, leaves
  that identifier as it finds it, on whatever registry it lands; and a registry with one
  entry per identifier stays so, under the passes and under a late fetch.
\<close>

theorem discovery_keeps_tracked_pools:
  assumes "map_of pools poolId = Some pool"
  shows "map_of (fst (updatePoolMap env pools res blk)) poolId = Some pool \<and>
         map_of (fst (fetchPoolsByPair env pools res tokenA tokenB blk maxTime)) poolId
           = Some pool \<and>
         snd (snd (updatePoolMap env pools res blk)) = [] \<and>
         (\<forall>f\<in>set (snd (snd (snd (fetchPoolsByPair env pools res tokenA tokenB blk maxTime)))).
            \<forall>later. map_of (landFetch env f later) poolId = map_of later poolId) \<and>
         (\<forall>keys mt bs batch later.
            map_of (fst (initializeBatch env
                           (filter (\<lambda>k. \<not> has pools (string_id env k)) keys)
                           blk mt bs batch later)) poolId
              = map_of later poolId) \<and>
         (distinct (map fst pools) \<longrightarrow>
            distinct (map fst (fst (updatePoolMap env pools res blk))) \<and>
            distinct (map fst (fst (fetchPoolsByPair env pools res tokenA tokenB blk maxTime)))) \<and>
         (\<forall>f later. distinct (map fst later) \<longrightarrow> distinct (map fst (landFetch env f later)))"
proof -
  have u: "map_of (fst (updatePoolMap env pools res blk)) poolId = Some pool"
    using assms
    by (simp add: updatePoolMap_registry initializePools_preserves[OF assms] split: sum.splits)
  have f: "map_of (fst (fetchPoolsByPair env pools res tokenA tokenB blk maxTime)) poolId
             = Some pool"
    by (simp add: fetchPoolsByPair_registry initializePools_preserves[OF assms])
  have n: "snd (snd (updatePoolMap env pools res blk)) = []"
    by (rule updatePoolMap_pending)
  have l: "\<forall>f\<in>set (snd (snd (snd (fetchPoolsByPair env pools res tokenA tokenB blk maxTime)))).
            \<forall>later. map_of (landFetch env f later) poolId = map_of later poolId"
  proof (intro ballI allI)
    fix f later
    assume "f \<in> set (snd (snd (snd (fetchPoolsByPair env pools res tokenA tokenB blk maxTime))))"
    then have "fetch_poolKeys f = filter (\<lambda>k. \<not> has pools (string_id env k))
               (fst (pairPoolKeys env res (fst (sortAndConvertTokens env tokenA tokenB))
                                          (snd (sortAndConvertTokens env tokenA tokenB))))"
      unfolding fetchPoolsByPair_pending by (rule initializePools_pending[THEN conjunct1])
    with tracked_not_uninitialized[OF assms]
    have "poolId \<notin> string_id env ` set (fetch_poolKeys f)"
      by simp
    then show "map_of (landFetch env f later) poolId = map_of later poolId"
      by (rule landFetch_preserves)
  qed
  have b: "\<forall>keys mt bs batch later.
            map_of (fst (initializeBatch env
                           (filter (\<lambda>k. \<not> has pools (string_id env k)) keys)
                           blk mt bs batch later)) poolId
              = map_of later poolId"
    by (intro allI initializeBatch_preserves tracked_not_uninitialized[OF assms])
  have d: "distinct (map fst (fst (updatePoolMap env pools res blk))) \<and>
           distinct (map fst (fst (fetchPoolsByPair env pools res tokenA tokenB blk maxTime)))"
    if "distinct (map fst pools)"
    using that
    by (simp add: updatePoolMap_registry fetchPoolsByPair_registry
                  initializePools_distinct[OF that] split: sum.splits)
  have ld: "\<forall>f later. distinct (map fst later) \<longrightarrow> distinct (map fst (landFetch env f later))"
    by (simp add: landFetch_distinct)
  from d have d': "distinct (map fst pools) \<longrightarrow>
            distinct (map fst (fst (updatePoolMap env pools res blk))) \<and>
            distinct (map fst (fst (fetchPoolsByPair env pools res tokenA tokenB blk maxTime)))"
    by blast
  from u f n l b d' ld show ?thesis
    by (intro conjI)
qed

theorem discovery_keeps_tracked_pools_witness:
  "map_of demo_pools ''ttf'' = Some (demo_pool 1 2 1 100) \<and>
   map_of (fst (updatePoolMap demo_env demo_pools
                  (Inr [demo_info 1, demo_info 4, demo_info 5, demo_info 6, demo_info 7,
                        demo_info 8]) 7)) ''ttf''
     = Some (demo_pool 1 2 1 100) \<and>
   map_of (fst (updatePoolMap demo_env demo_pools
                  (Inr [demo_info 1, demo_info 4, demo_info 5, demo_info 6, demo_info 7,
                        demo_info 8]) 7)) ''ttffff''
     = Some \<lparr>key = demo_key 1 2 4, pool_class = BasePool, pool_state = 40, stateBlock = 7\<rparr> \<and>
   map_of (fst (fetchPoolsByPair demo_env demo_pools
                  (Inr [demo_info 1, demo_info 4, demo_info 5, demo_info 6, demo_info 7,
                        demo_info 8]) demo_src demo_dest 6 200)) ''ttf''
     = Some (demo_pool 1 2 1 100) \<and>
   snd (snd (snd (fetchPoolsByPair demo_env demo_pools
                    (Inr [demo_info 1, demo_info 4, demo_info 5, demo_info 6, demo_info 7,
                          demo_info 8]) demo_src demo_dest 6 200)))
     = [\<lparr>fetch_poolKeys = map (demo_key 1 2) [4, 5, 6, 7, 8], fetch_blockNumber = 6,
          fetch_batchStart = 0, fetch_batch = map (demo_key 1 2) [4, 5, 6, 7, 8]\<rparr>] \<and>
   map_of (landFetch demo_env
             \<lparr>fetch_poolKeys = map (demo_key 1 2) [4, 5, 6, 7, 8], fetch_blockNumber = 6,
               fetch_batchStart = 0, fetch_batch = map (demo_key 1 2) [4, 5, 6, 7, 8]\<rparr>
             (fst (updatePoolMap demo_env demo_pools
                     (Inr [demo_info 1, demo_info 4, demo_info 5, demo_info 6, demo_info 7,
                           demo_info 8]) 7))) ''ttf''
     = Some (demo_pool 1 2 1 100) \<and>
   map_of (landFetch demo_env
             \<lparr>fetch_poolKeys = map (demo_key 1 2) [4, 5, 6, 7, 8], fetch_blockNumber = 6,
               fetch_batchStart = 0, fetch_batch = map (demo_key 1 2) [4, 5, 6, 7, 8]\<rparr>
             (fst (updatePoolMap demo_env demo_pools
                     (Inr [demo_info 1, demo_info 4, demo_info 5, demo_info 6, demo_info 7,
                           demo_info 8]) 7))) ''ttffff''
     = Some \<lparr>key = demo_key 1 2 4, pool_class = BasePool, pool_state = 40, stateBlock = 6\<rparr> \<and>
   distinct (map fst demo_pools) \<and>
   distinct (map fst (fst (updatePoolMap demo_env demo_pools
                             (Inr [demo_info 1, demo_info 4, demo_info 5, demo_info 6,
                                   demo_info 7, demo_info 8]) 7)))"
proof -
  let ?infos = "Inr [demo_info 1, demo_info 4, demo_info 5, demo_info 6, demo_info 7, demo_info 8]
                  :: exn + pool_info list"
  let ?all = "map (demo_key 1 2) [1, 4, 5, 6, 7, 8]"
  let ?new = "map (demo_key 1 2) [4, 5, 6, 7, 8]"
  let ?f = "\<lparr>fetch_poolKeys = ?new, fetch_blockNumber = 6, fetch_batchStart = 0,
             fetch_batch = ?new\<rparr>"
  let ?reg = "demo_pools @
       map (\<lambda>f. (string_id demo_env (demo_key 1 2 f),
                  \<lparr>key = demo_key 1 2 f, pool_class = BasePool, pool_state = f * 10,
                    stateBlock = 7\<rparr>)) [4, 5, 6, 7, 8]"
  let ?later = "fst (updatePoolMap demo_env demo_pools ?infos 7)"
  have h: "map_of demo_pools ''ttf'' = Some (demo_pool 1 2 1 100)"
    by (simp add: demo_pools_def)
  note t = discovery_keeps_tracked_pools
             [OF h, where env = demo_env and res = ?infos and blk = 7
                and tokenA = demo_src and tokenB = demo_dest and maxTime = 200]
  note t6 = discovery_keeps_tracked_pools
              [OF h, where env = demo_env and res = ?infos and blk = 6
                 and tokenA = demo_src and tokenB = demo_dest and maxTime = 200]
  have keys: "fetchAllPoolKeys demo_env ?infos = Inr ?all"
    by (simp add: fetchAllPoolKeys_def supportedExtensions_def PoolKey_def PoolConfig_def
                  demo_defs)
  have sort: "sortAndConvertTokens demo_env demo_src demo_dest = (1, 2)"
    by (simp add: sortAndConvertTokens_def demo_defs)
  have pair: "pairPoolKeys demo_env ?infos 1 2 = (?all, [])"
    by (simp add: pairPoolKeys_def keys) (simp add: demo_key_def)
  have un: "filter (\<lambda>k. \<not> has demo_pools (string_id demo_env k)) ?all = ?new"
    by (simp add: has_def demo_defs)
  have run6: "initializePools demo_env demo_pools ?new 6 (Some ((200 - 50) / 2))
                = (demo_pools, [Rejected ?new (Error ''Timeout'')], [?f])"
    by (simp add: discovery_defs demo_env_def)
  have run7: "initializePools demo_env demo_pools ?new 7 None
                = (?reg, [Fulfilled (map (string_id demo_env) ?new)], [])"
    by (simp add: discovery_defs demo_defs)
  have later: "?later = ?reg"
    unfolding updatePoolMap_run[OF keys un run7] by simp
  have new: "map_of ?later ''ttffff''
     = Some \<lparr>key = demo_key 1 2 4, pool_class = BasePool, pool_state = 40, stateBlock = 7\<rparr>"
    unfolding later by (simp add: demo_defs)
  have pend: "snd (snd (snd (fetchPoolsByPair demo_env demo_pools ?infos demo_src demo_dest 6 200)))
     = [?f]"
    unfolding fetchPoolsByPair_run[OF sort pair un run6] by simp
  have mem: "?f \<in> set (snd (snd (snd (fetchPoolsByPair demo_env demo_pools ?infos
                                         demo_src demo_dest 6 200))))"
    unfolding pend by simp
  note keep = t6[THEN conjunct2, THEN conjunct2, THEN conjunct2, THEN conjunct1,
                 rule_format, OF mem, of ?later]
  have land: "map_of (landFetch demo_env ?f ?later) ''ttf'' = Some (demo_pool 1 2 1 100)"
    unfolding keep by (rule t[THEN conjunct1])
  have over: "map_of (landFetch demo_env ?f ?later) ''ttffff''
     = Some \<lparr>key = demo_key 1 2 4, pool_class = BasePool, pool_state = 40, stateBlock = 6\<rparr>"
    unfolding later by (simp add: landFetch_unfold MIN_TICK_SPACINGS_PER_POOL_def demo_defs)
  have d: "distinct (map fst demo_pools)"
    by (simp add: demo_pools_def)
  note dd = t[THEN conjunct2, THEN conjunct2, THEN conjunct2, THEN conjunct2, THEN conjunct2,
              THEN conjunct1, rule_format, OF d, THEN conjunct1]
  from h t[THEN conjunct1] new t6[THEN conjunct2, THEN conjunct1] pend land over d dd
  show ?thesis
    by (intro conjI)
qed

lemma fetchPoolsByPair_ids:
  "set (fst (snd (snd (fetchPoolsByPair env pools res tokenA tokenB blk maxTime))))
     \<subseteq> string_id env `
         set (fst (pairPoolKeys env res (fst (sortAndConvertTokens env tokenA tokenB))
                                        (snd (sortAndConvertTokens env tokenA tokenB))))"
proof -
  let ?keys = "fst (pairPoolKeys env res (fst (sortAndConvertTokens env tokenA tokenB))
                                        (snd (sortAndConvertTokens env tokenA tokenB)))"
  let ?un = "filter (\<lambda>k. \<not> has pools (string_id env k)) ?keys"
  let ?run = "initializePools env pools ?un blk (Some ((maxTime - 50) / 2))"
  have ids: "fst (snd (snd (fetchPoolsByPair env pools res tokenA tokenB blk maxTime))) =
      map (string_id env) (filter (\<lambda>k. has pools (string_id env k)) ?keys) @
      concat (map (\<lambda>res. case res of Rejected batch err \<Rightarrow> [] | Fulfilled ids \<Rightarrow> ids)
                (fst (snd ?run)))"
    by (simp add: fetchPoolsByPair_def Let_def split: prod.splits)
  have new: "set ids \<subseteq> string_id env ` set ?keys" if "Fulfilled ids \<in> set (fst (snd ?run))" for ids
  proof -
    have "initializePools env pools ?un blk (Some ((maxTime - 50) / 2))
            = (fst ?run, fst (snd ?run), snd (snd ?run))"
      by simp
    from initializePools_ids[OF this that] show ?thesis by auto
  qed
  show ?thesis
    unfolding ids using new by (auto split: batch_result.splits)
qed

text \<open>
  C4. When the index request of \<^verbatim>\<open>fetchPoolsByPair\<close> fails, the keys used for the pair
  are the five fallback parameters, in order, followed by one oracle key exactly when a
  side of the pair is the native token; they are pairwise different, so there are six
  with a native side and five without. Every identifier returned comes from them.
\<close>

theorem fallback_pool_keys:
  assumes "res = Inl err"
  shows "fst (pairPoolKeys env res t0 t1) =
           map (\<lambda>params. PoolKey t0 t1
                            (PoolConfig (param_tickSpacing params) (param_fee params) 0))
             FALLBACK_POOL_PARAMETERS @
           (if t0 = NATIVE_TOKEN_ADDRESS env \<or> t1 = NATIVE_TOKEN_ADDRESS env
            then [PoolKey t0 t1 (PoolConfig (FULL_RANGE_TICK_SPACING env) 0 (config_oracle env))]
            else []) \<and>
         length (fst (pairPoolKeys env res t0 t1)) =
           length FALLBACK_POOL_PARAMETERS +
           (if t0 = NATIVE_TOKEN_ADDRESS env \<or> t1 = NATIVE_TOKEN_ADDRESS env then 1 else 0) \<and>
         distinct (fst (pairPoolKeys env res t0 t1)) \<and>
         (PoolKey t0 t1 (PoolConfig (FULL_RANGE_TICK_SPACING env) 0 (config_oracle env))
            \<in> set (fst (pairPoolKeys env res t0 t1))
          \<longleftrightarrow> t0 = NATIVE_TOKEN_ADDRESS env \<or> t1 = NATIVE_TOKEN_ADDRESS env) \<and>
         set (fst (snd (snd (fetchPoolsByPair env pools res tokenA tokenB blk maxTime))))
           \<subseteq> string_id env `
               set (fst (pairPoolKeys env res (fst (sortAndConvertTokens env tokenA tokenB))
                                              (snd (sortAndConvertTokens env tokenA tokenB))))"
proof -
  have keys: "fst (pairPoolKeys env res t0 t1) =
           map (\<lambda>params. PoolKey t0 t1
                            (PoolConfig (param_tickSpacing params) (param_fee params) 0))
             FALLBACK_POOL_PARAMETERS @
           (if t0 = NATIVE_TOKEN_ADDRESS env \<or> t1 = NATIVE_TOKEN_ADDRESS env
            then [PoolKey t0 t1 (PoolConfig (FULL_RANGE_TICK_SPACING env) 0 (config_oracle env))]
            else [])"
    using assms by (auto simp: pairPoolKeys_def fetchAllPoolKeys_def)
  have len: "length (fst (pairPoolKeys env res t0 t1)) =
           length FALLBACK_POOL_PARAMETERS +
           (if t0 = NATIVE_TOKEN_ADDRESS env \<or> t1 = NATIVE_TOKEN_ADDRESS env then 1 else 0)"
    unfolding keys by simp
  have dist: "distinct (fst (pairPoolKeys env res t0 t1))"
    unfolding keys
    by (simp add: FALLBACK_POOL_PARAMETERS_def PoolKey_def PoolConfig_def)
  have mem: "PoolKey t0 t1 (PoolConfig (FULL_RANGE_TICK_SPACING env) 0 (config_oracle env))
            \<in> set (fst (pairPoolKeys env res t0 t1))
          \<longleftrightarrow> t0 = NATIVE_TOKEN_ADDRESS env \<or> t1 = NATIVE_TOKEN_ADDRESS env"
    unfolding keys
    by (simp add: FALLBACK_POOL_PARAMETERS_def PoolKey_def PoolConfig_def)
  from keys len dist mem fetchPoolsByPair_ids[of env pools res tokenA tokenB blk maxTime]
  show ?thesis by (intro conjI)
qed

theorem fallback_pool_keys_witness:
  "length (fst (pairPoolKeys demo_env (Inl (Error ''ECONNREFUSED'')) 0 2))
     = length FALLBACK_POOL_PARAMETERS + 1 \<and>
   length (fst (pairPoolKeys demo_env (Inl (Error ''ECONNREFUSED'')) 1 2))
     = length FALLBACK_POOL_PARAMETERS \<and>
   length FALLBACK_POOL_PARAMETERS = 5 \<and>
   PoolKey 0 2 (PoolConfig 0 0 99)
     \<in> set (fst (pairPoolKeys demo_env (Inl (Error ''ECONNREFUSED'')) 0 2)) \<and>
   PoolKey 1 2 (PoolConfig 0 0 99)
     \<notin> set (fst (pairPoolKeys demo_env (Inl (Error ''ECONNREFUSED'')) 1 2)) \<and>
   distinct (fst (pairPoolKeys demo_env (Inl (Error ''ECONNREFUSED'')) 0 2))"
proof -
  have n: "NATIVE_TOKEN_ADDRESS demo_env = 0" "FULL_RANGE_TICK_SPACING demo_env = 0"
    "config_oracle demo_env = 99"
    by (simp_all add: demo_env_def)
  note t0 = fallback_pool_keys[OF refl, where env = demo_env and err = "Error ''ECONNREFUSED''"
              and ?t0.0 = 0 and ?t1.0 = 2 and pools = demo_pools and tokenA = demo_src
              and tokenB = demo_dest and blk = 7 and maxTime = 1000]
  note t1 = fallback_pool_keys[OF refl, where env = demo_env and err = "Error ''ECONNREFUSED''"
              and ?t0.0 = 1 and ?t1.0 = 2 and pools = demo_pools and tokenA = demo_src
              and tokenB = demo_dest and blk = 7 and maxTime = 1000]
  have five: "length FALLBACK_POOL_PARAMETERS = 5"
    by (simp add: FALLBACK_POOL_PARAMETERS_def)
  from t0 have "length (fst (pairPoolKeys demo_env (Inl (Error ''ECONNREFUSED'')) 0 2)) =
           length FALLBACK_POOL_PARAMETERS +
           (if 0 = NATIVE_TOKEN_ADDRESS demo_env \<or> 2 = NATIVE_TOKEN_ADDRESS demo_env then 1 else 0)"
    by blast
  then have a: "length (fst (pairPoolKeys demo_env (Inl (Error ''ECONNREFUSED'')) 0 2))
     = length FALLBACK_POOL_PARAMETERS + 1"
    by (simp only: n) simp
  from t1 have "length (fst (pairPoolKeys demo_env (Inl (Error ''ECONNREFUSED'')) 1 2)) =
           length FALLBACK_POOL_PARAMETERS +
           (if 1 = NATIVE_TOKEN_ADDRESS demo_env \<or> 2 = NATIVE_TOKEN_ADDRESS demo_env then 1 else 0)"
    by blast
  then have b: "length (fst (pairPoolKeys demo_env (Inl (Error ''ECONNREFUSED'')) 1 2))
     = length FALLBACK_POOL_PARAMETERS"
    by (simp only: n) simp
  from t0 have "PoolKey 0 2 (PoolConfig (FULL_RANGE_TICK_SPACING demo_env) 0 (config_oracle demo_env))
            \<in> set (fst (pairPoolKeys demo_env (Inl (Error ''ECONNREFUSED'')) 0 2))
          \<longleftrightarrow> 0 = NATIVE_TOKEN_ADDRESS demo_env \<or> 2 = NATIVE_TOKEN_ADDRESS demo_env"
    by blast
  then have c: "PoolKey 0 2 (PoolConfig 0 0 99)
     \<in> set (fst (pairPoolKeys demo_env (Inl (Error ''ECONNREFUSED'')) 0 2))"
    by (simp only: n) simp
  from t1 have "PoolKey 1 2 (PoolConfig (FULL_RANGE_TICK_SPACING demo_env) 0 (config_oracle demo_env))
            \<in> set (fst (pairPoolKeys demo_env (Inl (Error ''ECONNREFUSED'')) 1 2))
          \<longleftrightarrow> 1 = NATIVE_TOKEN_ADDRESS demo_env \<or> 2 = NATIVE_TOKEN_ADDRESS demo_env"
    by blast
  then have d: "PoolKey 1 2 (PoolConfig 0 0 99)
     \<notin> set (fst (pairPoolKeys demo_env (Inl (Error ''ECONNREFUSED'')) 1 2))"
    by (simp only: n) simp
  from t0 have e: "distinct (fst (pairPoolKeys demo_env (Inl (Error ''ECONNREFUSED'')) 0 2))"
    by blast
  from a b five c d e show ?thesis
    by (intro conjI)
qed

end
